theory Spec2Isabelle
  imports Main
begin

section \<open>Errors\<close>

text \<open>
  A call that gives no value ends in one of three ways. It throws an \<open>ApiError\<close>
  (middleware/errorHandler.js: message, statusCode, type, param, code); it throws any
  other error object, of which the code reads \<open>message\<close>, \<open>response?.status\<close> and
  \<open>config?.url\<close>; or it awaits a promise that never settles, and then it neither
  returns nor throws, and no \<open>catch\<close> runs.
\<close>

datatype failure =
    ApiError string int string "string option" "string option"
  | OtherError string "int option" "string option"
  | NeverSettles

text \<open>
  What a promise of the outside (axios, the storage client) rejects with: an error
  object with its \<open>message\<close>, \<open>response?.status\<close> and \<open>config?.url\<close>. It is never
  an \<open>ApiError\<close>, which only this code constructs.
\<close>

datatype rejection = Rejection string "int option" "string option"

fun thrown_by :: "rejection \<Rightarrow> failure" where
  "thrown_by (Rejection m st u) = OtherError m st u"

section \<open>Quota ledger: middleware/rateLimit.js\<close>

subsection \<open>The rate\_limits table\<close>

text \<open>Timestamps are milliseconds since the epoch, as \<open>Date\<close> holds them.\<close>

record rate_limit_row =
  key_id :: string
  requests_count :: int
  last_reset :: int
  max_requests :: int

type_synonym rate_limits = "string \<rightharpoonup> rate_limit_row"

text \<open>
  \<open>req.apiKey\<close> as the authentication middleware sets it: the key's id and the
  \<open>rate_limit\<close> column of the key (\<open>None\<close> when the column is null).
\<close>

record api_key =
  apiKey_id :: string
  rateLimit :: "int option"

text \<open>
  The clock of one request. The middleware reads it twice: \<open>now = new Date()\<close>, and a
  second \<open>new Date()\<close> on which \<open>setHours(0, 0, 0, 0)\<close> gives \<open>resetTime\<close>, the
  midnight of the server's local day. That midnight is the local date at the second
  reading, taken at 00:00:00.000 local time; the local date follows from the zone's
  offset from UTC at the reading, and the instant of its midnight from the zone's offset
  at that midnight. The two offsets differ on a day on which the zone changes its
  offset, which is then 23 or 25 hours long.
\<close>

record clock =
  now :: int
  now_again :: int
  tzOffset :: int
  tzOffset_at_midnight :: int

definition resetTime :: "clock \<Rightarrow> int" where
  "resetTime c =
     (now_again c + tzOffset c) - ((now_again c + tzOffset c) mod 86400000) -
     tzOffset_at_midnight c"

text \<open>
  What the store does with one request's calls. A supabase call resolves to
  \<open>{data, error}\<close>; it can also reject, which \<open>await\<close> turns into a throw.
\<close>

datatype store_fault = Works | ReturnsError | Throws

record store_faults =
  on_select :: store_fault
  on_upsert :: store_fault
  on_update :: store_fault

definition no_faults :: store_faults where
  "no_faults = \<lparr>on_select = Works, on_upsert = Works, on_update = Works\<rparr>"

record select_reply =
  reply_data :: "rate_limit_row option"
  reply_error :: bool

text \<open>\<open>.select('*').eq('key_id', keyId).single()\<close>: no row is an error reply with null data.\<close>

definition db_select :: "store_fault \<Rightarrow> rate_limits \<Rightarrow> string \<Rightarrow> failure + select_reply" where
  "db_select f tbl keyId =
     (case f of
        Throws \<Rightarrow> Inl (OtherError ''select failed'' None None)
      | ReturnsError \<Rightarrow> Inr \<lparr>reply_data = None, reply_error = True\<rparr>
      | Works \<Rightarrow>
          (case tbl keyId of
             None \<Rightarrow> Inr \<lparr>reply_data = None, reply_error = True\<rparr>
           | Some row \<Rightarrow> Inr \<lparr>reply_data = Some row, reply_error = False\<rparr>))"

text \<open>\<open>.upsert(row)\<close>: insert the row or replace the one with its key.\<close>

definition db_upsert :: "store_fault \<Rightarrow> rate_limits \<Rightarrow> rate_limit_row \<Rightarrow> failure + rate_limits" where
  "db_upsert f tbl row =
     (case f of
        Throws \<Rightarrow> Inl (OtherError ''upsert failed'' None None)
      | ReturnsError \<Rightarrow> Inr tbl
      | Works \<Rightarrow> Inr (tbl(key_id row \<mapsto> row)))"

text \<open>\<open>.update({requests_count: c}).eq('key_id', keyId)\<close>: changes the row that is there.\<close>

definition db_update :: "store_fault \<Rightarrow> rate_limits \<Rightarrow> string \<Rightarrow> int \<Rightarrow> failure + rate_limits" where
  "db_update f tbl keyId c =
     (case f of
        Throws \<Rightarrow> Inl (OtherError ''update failed'' None None)
      | ReturnsError \<Rightarrow> Inr tbl
      | Works \<Rightarrow>
          (case tbl keyId of
             None \<Rightarrow> Inr tbl
           | Some row \<Rightarrow> Inr (tbl(keyId \<mapsto> row\<lparr>requests_count := c\<rparr>))))"

subsection \<open>The middleware\<close>

datatype outcome = Next | Respond429

datatype store_op = Select | Upsert | Update

text \<open>
  One run of the middleware: the table afterwards, whether it called \<open>next()\<close> or
  answered 429, the three X-RateLimit headers when it set them, and the store calls
  it made, each with whether the call threw. The third header is
  \<open>resetTime.getTime() / 1000 + 86400\<close>; the offsets of zones are whole seconds, so
  the midnight is one too and the division is exact.
\<close>

record limiter_run =
  table :: rate_limits
  outcome :: outcome
  headers :: "(int \<times> int \<times> int) option"
  store_calls :: "(store_op \<times> bool) list"

text \<open>\<open>req.apiKey.rateLimit || 100\<close>: null and 0 are both falsy.\<close>

definition rateLimit_or_default :: "int option \<Rightarrow> int" where
  "rateLimit_or_default r = (case r of None \<Rightarrow> 100 | Some n \<Rightarrow> if n = 0 then 100 else n)"

text \<open>
  The middleware from the point where the select has answered. The table it writes to
  is the table at that moment, which need not be the one the select read.
\<close>

definition after_select ::
  "store_faults \<Rightarrow> clock \<Rightarrow> api_key \<Rightarrow> failure + select_reply \<Rightarrow> rate_limits \<Rightarrow> limiter_run" where
  "after_select f clk k reply tbl =
     (case reply of
        Inl e \<Rightarrow>
          \<lparr>table = tbl, outcome = Next, headers = None, store_calls = [(Select, True)]\<rparr>
      | Inr r \<Rightarrow>
          (if reply_error r \<or>
              (case reply_data r of None \<Rightarrow> True | Some d \<Rightarrow> last_reset d < resetTime clk)
           then
             (case db_upsert (on_upsert f) tbl
                     \<lparr>key_id = apiKey_id k, requests_count = 1, last_reset = now clk,
                      max_requests = rateLimit_or_default (rateLimit k)\<rparr> of
                Inl e \<Rightarrow>
                  \<lparr>table = tbl, outcome = Next, headers = None,
                   store_calls = [(Select, False), (Upsert, True)]\<rparr>
              | Inr tbl' \<Rightarrow>
                  \<lparr>table = tbl', outcome = Next, headers = None,
                   store_calls = [(Select, False), (Upsert, False)]\<rparr>)
           else
             (case reply_data r of
                None \<Rightarrow>
                  \<lparr>table = tbl, outcome = Next, headers = None, store_calls = [(Select, False)]\<rparr>
              | Some d \<Rightarrow>
                  (if requests_count d \<ge> max_requests d then
                     \<lparr>table = tbl, outcome = Respond429, headers = None,
                      store_calls = [(Select, False)]\<rparr>
                   else
                     (case db_update (on_update f) tbl (apiKey_id k) (requests_count d + 1) of
                        Inl e \<Rightarrow>
                          \<lparr>table = tbl, outcome = Next, headers = None,
                           store_calls = [(Select, False), (Update, True)]\<rparr>
                      | Inr tbl' \<Rightarrow>
                          \<lparr>table = tbl', outcome = Next,
                           headers = Some (max_requests d,
                                           max_requests d - requests_count d - 1,
                                           resetTime clk div 1000 + 86400),
                           store_calls = [(Select, False), (Update, False)]\<rparr>)))))"

text \<open>
  The middleware that \<open>createDynamicRateLimiter()\<close> returns. A request without
  \<open>req.apiKey\<close>, or with an empty id, passes without touching the store.
\<close>

definition createDynamicRateLimiter ::
  "store_faults \<Rightarrow> clock \<Rightarrow> api_key option \<Rightarrow> rate_limits \<Rightarrow> limiter_run" where
  "createDynamicRateLimiter f clk apiKey tbl =
     (case apiKey of
        None \<Rightarrow> \<lparr>table = tbl, outcome = Next, headers = None, store_calls = []\<rparr>
      | Some k \<Rightarrow>
          (if apiKey_id k = [] then
             \<lparr>table = tbl, outcome = Next, headers = None, store_calls = []\<rparr>
           else after_select f clk k (db_select (on_select f) tbl (apiKey_id k)) tbl))"

text \<open>
  A sequence of requests of one key, each finished before the next starts, on a store
  that treats the calls of every request as \<open>f\<close> says: the outcomes in order, and the
  table at the end.
\<close>

fun runCalls ::
  "store_faults \<Rightarrow> api_key \<Rightarrow> rate_limits \<Rightarrow> clock list \<Rightarrow> outcome list \<times> rate_limits" where
  "runCalls f k tbl [] = ([], tbl)"
| "runCalls f k tbl (c # cs) =
     (let r = createDynamicRateLimiter f c (Some k) tbl;
          (os, tbl') = runCalls f k (table r) cs
      in (outcome r # os, tbl'))"

subsection \<open>Requests in flight at the same time\<close>

text \<open>
  The middleware awaits the select, then awaits the upsert or the update; between the
  two the event loop runs other requests. A request is therefore in one of three
  phases, and a schedule names, step by step, the request whose pending store call is
  served next.
\<close>

datatype phase = NotStarted | Selected "failure + select_reply" | Finished outcome

fun advance :: "clock \<Rightarrow> api_key \<Rightarrow> rate_limits \<Rightarrow> phase \<Rightarrow> rate_limits \<times> phase" where
  "advance clk k tbl NotStarted = (tbl, Selected (db_select Works tbl (apiKey_id k)))"
| "advance clk k tbl (Selected reply) =
     (let r = after_select no_faults clk k reply tbl in (table r, Finished (outcome r)))"
| "advance clk k tbl (Finished out) = (tbl, Finished out)"

fun interleave :: "clock \<Rightarrow> api_key \<Rightarrow> nat list \<Rightarrow> rate_limits \<times> phase list \<Rightarrow> rate_limits \<times> phase list" where
  "interleave clk k [] st = st"
| "interleave clk k (i # sched) (tbl, ps) =
     (if i < length ps then
        (let (tbl', p') = advance clk k tbl (ps ! i)
         in interleave clk k sched (tbl', ps[i := p']))
      else interleave clk k sched (tbl, ps))"

section \<open>Catalog: config/constants.js\<close>

record provider =
  endpoint :: string
  models :: "string list"

definition PROVIDERS :: "(string \<times> provider) list" where
  "PROVIDERS =
     [(''dalle'', \<lparr>endpoint = ''/ai-image/dalle'', models = [''dalle'']\<rparr>),
      (''magicstudio'', \<lparr>endpoint = ''/ai-image/magicstudio'', models = [''magicstudio'']\<rparr>),
      (''sdxl'', \<lparr>endpoint = ''/ai-image/sdxl-beta'', models = [''sdxl-beta'']\<rparr>),
      (''flux'', \<lparr>endpoint = ''/ai-image/flux'',
                 models = [''flux'', ''flux-schnell'', ''flux-realism'', ''flux-pro'',
                           ''flux-1.1-pro'', ''flux-1.1-pro-ultra'',
                           ''flux-1.1-pro-ultra-raw'']\<rparr>)]"

definition MODEL_PROVIDERS :: "(string \<times> string) list" where
  "MODEL_PROVIDERS =
     [(''dalle'', ''dalle''), (''magicstudio'', ''magicstudio''), (''sdxl-beta'', ''sdxl''),
      (''flux'', ''flux''), (''flux-schnell'', ''flux''), (''flux-realism'', ''flux''),
      (''flux-pro'', ''flux''), (''flux-1.1-pro'', ''flux''), (''flux-1.1-pro-ultra'', ''flux''),
      (''flux-1.1-pro-ultra-raw'', ''flux'')]"

definition FLUX_SIZE_MAP :: "(string \<times> string) list" where
  "FLUX_SIZE_MAP =
     [(''256x256'', ''flux''), (''512x512'', ''flux-schnell''), (''1024x1024'', ''flux-realism''),
      (''1792x1024'', ''flux-pro''), (''1024x1792'', ''flux-1.1-pro''),
      (''2048x2048'', ''flux-1.1-pro-ultra''), (''hd'', ''flux-1.1-pro-ultra-raw'')]"

definition SUPPORTED_MODELS :: "string list" where
  "SUPPORTED_MODELS =
     [''dalle'', ''magicstudio'', ''sdxl-beta'', ''flux'', ''flux-schnell'', ''flux-realism'',
      ''flux-pro'', ''flux-1.1-pro'', ''flux-1.1-pro-ultra'', ''flux-1.1-pro-ultra-raw'']"

definition OPENAI_MODEL_MAP :: "(string \<times> string) list" where
  "OPENAI_MODEL_MAP =
     [(''dall-e-3'', ''dalle''), (''dall-e-2'', ''magicstudio''),
      (''stable-diffusion-3'', ''sdxl-beta''), (''stable-diffusion-2'', ''flux-1.1-pro-ultra'')]"

definition SUPPORTED_SIZES :: "string list" where
  "SUPPORTED_SIZES =
     [''256x256'', ''512x512'', ''1024x1024'', ''1792x1024'', ''1024x1792'', ''2048x2048'', ''hd'']"

definition SUPPORTED_FORMATS :: "string list" where
  "SUPPORTED_FORMATS = [''url'', ''b64_json'']"

record poll_config =
  maxAttempts :: nat
  interval :: int

definition POLL_CONFIG :: poll_config where
  "POLL_CONFIG = \<lparr>maxAttempts = 60, interval = 10000\<rparr>"

subsection \<open>Reading a property of an object literal\<close>

text \<open>
  The tables above are plain object literals, so \<open>TABLE[key]\<close> finds the literal's own
  properties and, failing that, the members every object inherits from
  \<open>Object.prototype\<close>. An inherited member is a function (or, for \<open>__proto__\<close>, the
  prototype object): it is truthy, and used as a property key or inside a template
  string it turns into its source text.
\<close>

datatype 'a slot = Own 'a | Builtin string

definition Object_prototype :: "string list" where
  "Object_prototype =
     [''constructor'', ''__proto__'', ''hasOwnProperty'', ''isPrototypeOf'',
      ''propertyIsEnumerable'', ''toLocaleString'', ''toString'', ''valueOf'',
      ''__defineGetter__'', ''__defineSetter__'', ''__lookupGetter__'', ''__lookupSetter__'']"

definition js_get :: "(string \<times> 'a) list \<Rightarrow> string \<Rightarrow> 'a slot option" where
  "js_get obj k =
     (case map_of obj k of
        Some v \<Rightarrow> Some (Own v)
      | None \<Rightarrow> if k \<in> set Object_prototype then Some (Builtin k) else None)"

definition to_key :: "string slot \<Rightarrow> string" where
  "to_key v =
     (case v of
        Own s \<Rightarrow> s
      | Builtin nm \<Rightarrow>
          if nm = ''__proto__'' then ''[object Object]''
          else ''function '' @ (if nm = ''constructor'' then ''Object'' else nm) @
               ''() { [native code] }'')"

definition truthy :: "string slot option \<Rightarrow> bool" where
  "truthy v = (case v of None \<Rightarrow> False | Some (Own s) \<Rightarrow> s \<noteq> [] | Some (Builtin nm) \<Rightarrow> True)"

fun includes_str :: "string \<Rightarrow> string \<Rightarrow> bool" where
  "includes_str [] sub = (sub = [])"
| "includes_str (c # cs) sub = (take (length sub) (c # cs) = sub \<or> includes_str cs sub)"

definition startsWith :: "string \<Rightarrow> string \<Rightarrow> bool" where
  "startsWith s p = (take (length p) s = p)"

section \<open>The world outside the process\<close>

text \<open>
  What the service does to the outside is recorded as a trace of events; the temporary
  directory is the set of file names in it. Console output is left out.
\<close>

record log_row =
  log_key_id :: string
  log_endpoint :: string
  log_prompt :: string
  log_model :: string
  log_status :: string

datatype event =
    Submitted string
  | Polled "string option"
  | Waited int
  | Downloaded string
  | StorageUpload string string
  | SignedUrlCreated string int
  | ImageLogged string string string string
  | RequestLogged log_row

record sys =
  trace :: "event list"
  temp_files :: "string set"

definition emit :: "event \<Rightarrow> sys \<Rightarrow> sys" where
  "emit e s = s\<lparr>trace := trace s @ [e]\<rparr>"

definition create_file :: "string \<Rightarrow> sys \<Rightarrow> sys" where
  "create_file f s = s\<lparr>temp_files := insert f (temp_files s)\<rparr>"

definition unlink_file :: "string \<Rightarrow> sys \<Rightarrow> sys" where
  "unlink_file f s = s\<lparr>temp_files := temp_files s - {f}\<rparr>"

text \<open>
  The process environment: \<open>EXTERNAL_API_URL\<close> and \<open>TEMP_IMAGE_DIR\<close>, and the
  library functions the service calls, \<open>encodeURIComponent\<close>,
  \<open>Buffer.toString('base64')\<close> and \<open>path.join\<close> (which joins the directory and the
  file name and normalizes the result), taken as given functions.
\<close>

record env =
  API_BASE_URL :: string
  TEMP_IMAGE_DIR :: "string option"
  encodeURIComponent :: "string \<Rightarrow> string"
  base64 :: "string \<Rightarrow> string"
  path_join :: "string \<Rightarrow> string \<Rightarrow> string"

text \<open>\<open>process.env.TEMP_IMAGE_DIR || './temp'\<close>\<close>

definition tempDir :: "env \<Rightarrow> string" where
  "tempDir e = (case TEMP_IMAGE_DIR e of None \<Rightarrow> ''./temp'' | Some d \<Rightarrow> if d = [] then ''./temp'' else d)"

text \<open>
  How one transfer through the temporary directory goes: the uuid drawn for the file
  name, whether creating the directory throws, what the download request answers (the
  bytes of the body, or a rejection), how piping the body into the file ends, and
  whether reading and unlinking the file throw.

  The code awaits a promise that the writer's \<open>finish\<close> resolves and the writer's
  \<open>error\<close> rejects. The writer finishes; or it fails to open the file; or it fails
  while writing; or the download stream breaks off in the middle of the body. In the last
  case \<open>pipe\<close> does not end the writer and does not pass the error on to it, so the
  writer neither finishes nor fails, and the promise never settles.
\<close>

datatype write_outcome = WriteFinished | OpenFailed | WriteFailed | SourceBroke

record transfer_world =
  uuid :: string
  mkdir_throws :: bool
  download_reply :: "rejection + string"
  write_outcome :: write_outcome
  read_throws :: bool
  unlink_throws :: bool

text \<open>
  The storage service's answers: \<open>upload\<close> resolves to \<open>{data, error}\<close> (here the
  error's message, if any) or rejects; \<open>createSignedUrl\<close> resolves to the signed URL
  of its data (\<open>None\<close> when data is null) and an error message, or rejects.
\<close>

record sign_result =
  signedUrl :: "string option"
  signedUrlError :: "string option"

record upload_world =
  transfer :: transfer_world
  upload_reply :: "rejection + string option"
  sign_reply :: "rejection + sign_result"
  insert_throws :: bool

text \<open>The upstream's answers: to the submission, and to each polling attempt by number.\<close>

record job_response =
  job_ok :: bool
  job_message :: "string option"
  task_url :: "string option"

record poll_data =
  poll_status :: "string option"
  poll_url :: "string option"
  poll_message :: "string option"

record world =
  submit_reply :: "rejection + job_response"
  poll_replies :: "nat \<Rightarrow> rejection + poll_data"
  upload :: upload_world
  encode :: transfer_world
  success_log_fault :: store_fault
  error_log_fault :: store_fault
  created_now :: int

section \<open>Image service: services/imageService.js\<close>

subsection \<open>pollTaskCompletion\<close>

record poll_result =
  result_ok :: bool
  result_status :: string
  result_url :: string

datatype 'a completion = Returned 'a | Fallthrough

text \<open>
  The body of the \<open>try\<close> inside the loop, for one attempt: the request to the task
  URL, then either the \<open>return\<close>, or the \<open>throw\<close> on status \<open>error\<close>, or the wait
  and the fall through to the next iteration.
\<close>

definition pollAttempt ::
  "int \<Rightarrow> rejection + poll_data \<Rightarrow> string option \<Rightarrow> sys \<Rightarrow> (failure + poll_result completion) \<times> sys" where
  "pollAttempt iv reply taskUrl s =
     (let s1 = emit (Polled taskUrl) s in
      case reply of
        Inl e \<Rightarrow> (Inl (thrown_by e), s1)
      | Inr d \<Rightarrow>
          (if poll_status d = Some ''done'' \<and> poll_url d \<noteq> None \<and> poll_url d \<noteq> Some [] then
             (Inr (Returned \<lparr>result_ok = True, result_status = ''done'',
                             result_url = (case poll_url d of Some u \<Rightarrow> u | None \<Rightarrow> [])\<rparr>), s1)
           else if poll_status d = Some ''error'' then
             (Inl (ApiError
                     (case poll_message d of
                        None \<Rightarrow> ''Image generation failed''
                      | Some m \<Rightarrow> if m = [] then ''Image generation failed'' else m)
                     400 ''api_error'' None (Some ''generation_failed'')), s1)
           else (Inr Fallthrough, emit (Waited iv) s1)))"

text \<open>
  The \<open>for\<close> loop from a given attempt number on. The \<open>catch\<close> of the loop takes
  whatever the \<open>try\<close> threw, waits, and lets the loop go on.
\<close>

function pollFrom ::
  "poll_config \<Rightarrow> (nat \<Rightarrow> rejection + poll_data) \<Rightarrow> string option \<Rightarrow> nat \<Rightarrow> sys \<Rightarrow>
     (failure + poll_result) \<times> sys" where
  "pollFrom cfg replies taskUrl attempt s =
     (if attempt < maxAttempts cfg then
        (case pollAttempt (interval cfg) (replies attempt) taskUrl s of
           (Inr (Returned img), s') \<Rightarrow> (Inr img, s')
         | (Inr Fallthrough, s') \<Rightarrow> pollFrom cfg replies taskUrl (Suc attempt) s'
         | (Inl e, s') \<Rightarrow>
             pollFrom cfg replies taskUrl (Suc attempt) (emit (Waited (interval cfg)) s'))
      else
        (Inl (ApiError ''Image generation timed out'' 408 ''timeout_error'' None
                (Some ''generation_timeout'')), s))"
  by pat_completeness auto
termination
  by (relation "measure (\<lambda>(cfg, replies, taskUrl, attempt, s). maxAttempts cfg - attempt)") auto

definition pollTaskCompletion ::
  "(nat \<Rightarrow> rejection + poll_data) \<Rightarrow> string option \<Rightarrow> sys \<Rightarrow> (failure + poll_result) \<times> sys" where
  "pollTaskCompletion replies taskUrl s = pollFrom POLL_CONFIG replies taskUrl 0 s"

subsection \<open>uploadToStorage\<close>

definition thrown :: "string \<Rightarrow> failure" where
  "thrown msg = OtherError msg None None"

text \<open>The body of the \<open>try\<close>: what it returns or throws, and the state it leaves.\<close>

definition uploadToStorage_try ::
  "env \<Rightarrow> upload_world \<Rightarrow> string \<Rightarrow> string \<Rightarrow> string \<Rightarrow> string \<Rightarrow> sys \<Rightarrow> (failure + string) \<times> sys" where
  "uploadToStorage_try e w sourceUrl keyId prompt model s =
     (if mkdir_throws (transfer w) then (Inl (thrown ''mkdirSync failed''), s)
      else
        let fileId = uuid (transfer w);
            fileExt = (if includes_str sourceUrl ''.jpg'' then ''jpg'' else ''png'');
            fileName = path_join e (tempDir e) (fileId @ ''.'' @ fileExt);
            s1 = emit (Downloaded sourceUrl) s
        in
          case download_reply (transfer w) of
            Inl err \<Rightarrow> (Inl (thrown_by err), s1)
          | Inr bytes \<Rightarrow>
              (case write_outcome (transfer w) of
                 OpenFailed \<Rightarrow> (Inl (thrown ''open failed''), s1)
               | WriteFailed \<Rightarrow> (Inl (thrown ''write failed''), create_file fileName s1)
               | SourceBroke \<Rightarrow> (Inl NeverSettles, create_file fileName s1)
               | WriteFinished \<Rightarrow>
                   (let s2 = create_file fileName s1 in
                    if read_throws (transfer w) then (Inl (thrown ''readFileSync failed''), s2)
                    else
                      let storagePath = keyId @ ''/'' @ fileId @ ''.'' @ fileExt;
                          s3 = emit (StorageUpload storagePath
                                       (if fileExt = ''jpg'' then ''image/jpeg'' else ''image/png'')) s2
                      in
                        case upload_reply w of
                          Inl err \<Rightarrow> (Inl (thrown_by err), s3)
                        | Inr (Some msg) \<Rightarrow> (Inl (thrown (''Storage upload failed: '' @ msg)), s3)
                        | Inr None \<Rightarrow>
                            (let s4 = emit (SignedUrlCreated storagePath 120) s3 in
                             case sign_reply w of
                               Inl err \<Rightarrow> (Inl (thrown_by err), s4)
                             | Inr sr \<Rightarrow>
                                 (case signedUrlError sr of
                                    Some msg \<Rightarrow>
                                      (Inl (thrown (''Failed to create signed URL: '' @ msg)), s4)
                                  | None \<Rightarrow>
                                      (if insert_throws w then (Inl (thrown ''insert failed''), s4)
                                       else
                                         let s5 = emit (ImageLogged keyId storagePath prompt model) s4
                                         in
                                           if unlink_throws (transfer w)
                                           then (Inl (thrown ''unlinkSync failed''), s5)
                                           else
                                             (case signedUrl sr of
                                                None \<Rightarrow>
                                                  (Inl (thrown ''signedUrlData is null''),
                                                   unlink_file fileName s5)
                                              | Some u \<Rightarrow> (Inr u, unlink_file fileName s5))))))))"

text \<open>
  The \<open>catch\<close> answers every throw with the source URL. When the body never settles
  there is nothing to catch, and the call never settles either.
\<close>

definition uploadToStorage ::
  "env \<Rightarrow> upload_world \<Rightarrow> string \<Rightarrow> string \<Rightarrow> string \<Rightarrow> string \<Rightarrow> sys \<Rightarrow> (failure + string) \<times> sys" where
  "uploadToStorage e w sourceUrl keyId prompt model s =
     (case uploadToStorage_try e w sourceUrl keyId prompt model s of
        (Inl NeverSettles, s') \<Rightarrow> (Inl NeverSettles, s')
      | (Inl err, s') \<Rightarrow> (Inr sourceUrl, s')
      | (Inr u, s') \<Rightarrow> (Inr u, s'))"

subsection \<open>imageToBase64\<close>

definition imageToBase64_try ::
  "env \<Rightarrow> transfer_world \<Rightarrow> string \<Rightarrow> sys \<Rightarrow> (failure + string) \<times> sys" where
  "imageToBase64_try e w url s =
     (if mkdir_throws w then (Inl (thrown ''mkdirSync failed''), s)
      else
        let fileName = path_join e (tempDir e) (uuid w @ ''.png'');
            s1 = emit (Downloaded url) s
        in
          case download_reply w of
            Inl err \<Rightarrow> (Inl (thrown_by err), s1)
          | Inr bytes \<Rightarrow>
              (case write_outcome w of
                 OpenFailed \<Rightarrow> (Inl (thrown ''open failed''), s1)
               | WriteFailed \<Rightarrow> (Inl (thrown ''write failed''), create_file fileName s1)
               | SourceBroke \<Rightarrow> (Inl NeverSettles, create_file fileName s1)
               | WriteFinished \<Rightarrow>
                   (let s2 = create_file fileName s1 in
                    if read_throws w then (Inl (thrown ''readFileSync failed''), s2)
                    else
                      let base64Image = base64 e bytes in
                        if unlink_throws w then (Inl (thrown ''unlinkSync failed''), s2)
                        else (Inr base64Image, unlink_file fileName s2))))"

definition imageToBase64 ::
  "env \<Rightarrow> transfer_world \<Rightarrow> string \<Rightarrow> sys \<Rightarrow> (failure + string) \<times> sys" where
  "imageToBase64 e w url s =
     (case imageToBase64_try e w url s of
        (Inl NeverSettles, s') \<Rightarrow> (Inl NeverSettles, s')
      | (Inl err, s') \<Rightarrow>
          (Inl (ApiError ''Failed to process image'' 500 ''processing_error'' None
                  (Some ''image_processing_failed'')), s')
      | (Inr b, s') \<Rightarrow> (Inr b, s'))"

subsection \<open>generateImage\<close>

record params =
  p_prompt :: "string option"
  p_n :: "int option"
  p_size :: "string option"
  p_model :: "string option"
  p_response_format :: "string option"
  p_keyId :: string

datatype entry = Url string | B64_json string

record response =
  creator :: string
  created :: int
  resp_data :: "entry list"

definition prompt_required :: failure where
  "prompt_required =
     ApiError ''Prompt is required'' 400 ''invalid_request_error'' (Some ''prompt'')
       (Some ''param_required'')"

definition invalid_model :: failure where
  "invalid_model =
     ApiError ''Invalid model'' 400 ''invalid_request_error'' (Some ''model'')
       (Some ''param_invalid'')"

text \<open>\<open>v || d\<close> on a property read.\<close>

definition or_else :: "string slot option \<Rightarrow> string slot \<Rightarrow> string slot" where
  "or_else v d = (case v of None \<Rightarrow> d | Some x \<Rightarrow> if truthy (Some x) then x else d)"

text \<open>
  Lines 432 to 457 of \<open>generateImage\<close>: from the model name to the actual model, the
  provider's endpoint and the URL of the submission.
\<close>

definition resolveTarget ::
  "env \<Rightarrow> string \<Rightarrow> string \<Rightarrow> string \<Rightarrow> failure + (string slot \<times> string \<times> string)" where
  "resolveTarget e prompt imageSize model =
     (let actualModel = or_else (js_get OPENAI_MODEL_MAP model) (Own model) in
      case js_get MODEL_PROVIDERS (to_key actualModel) of
        None \<Rightarrow> Inl invalid_model
      | Some providerName \<Rightarrow>
          (if \<not> truthy (Some providerName) then Inl invalid_model
           else
             case js_get PROVIDERS (to_key providerName) of
               None \<Rightarrow> Inl (thrown ''Cannot read properties of undefined (reading endpoint)'')
             | Some provider \<Rightarrow>
                 (let endpointPath = (case provider of Own p \<Rightarrow> endpoint p | Builtin nm \<Rightarrow> ''undefined'');
                      apiUrl = API_BASE_URL e @ endpointPath @ ''?text='' @ encodeURIComponent e prompt
                  in
                    if providerName = Own ''flux'' then
                      (case actualModel of
                         Builtin nm \<Rightarrow> Inl (thrown ''actualModel.startsWith is not a function'')
                       | Own am \<Rightarrow>
                           if startsWith am ''flux''
                           then Inr (actualModel, endpointPath, apiUrl @ ''&model='' @ am)
                           else
                             let fluxModel = or_else (js_get FLUX_SIZE_MAP imageSize)
                                               (Own ''flux-1.1-pro-ultra'')
                             in Inr (actualModel, endpointPath, apiUrl @ ''&model='' @ to_key fluxModel))
                    else Inr (actualModel, endpointPath, apiUrl))))"

text \<open>
  A write to \<open>request_logs\<close> inside its own \<open>try\<close>/\<open>catch\<close>: the row is there when
  the store works, and nothing else happens when it does not.
\<close>

definition log_request :: "store_fault \<Rightarrow> log_row \<Rightarrow> sys \<Rightarrow> sys" where
  "log_request f row s = (case f of Works \<Rightarrow> emit (RequestLogged row) s | ReturnsError \<Rightarrow> s | Throws \<Rightarrow> s)"

text \<open>
  \<open>Array(n).fill().map(() => x)\<close>: a length that is negative, or not below 2^32, is a
  RangeError.
\<close>

definition fill_data :: "int \<Rightarrow> entry \<Rightarrow> failure + entry list" where
  "fill_data n x =
     (if n < 0 \<or> 4294967296 \<le> n then Inl (thrown ''Invalid array length'')
      else Inr (replicate (nat n) x))"

definition generateImage_try :: "env \<Rightarrow> world \<Rightarrow> params \<Rightarrow> sys \<Rightarrow> (failure + response) \<times> sys" where
  "generateImage_try e w ps s =
     (let n = (case p_n ps of None \<Rightarrow> 1 | Some k \<Rightarrow> k);
          imageSize = (case p_size ps of None \<Rightarrow> ''1024x1024'' | Some z \<Rightarrow> z);
          model = (case p_model ps of None \<Rightarrow> ''dalle'' | Some m \<Rightarrow> m);
          response_format = (case p_response_format ps of None \<Rightarrow> ''url'' | Some f \<Rightarrow> f)
      in
        case p_prompt ps of
          None \<Rightarrow> (Inl prompt_required, s)
        | Some prompt \<Rightarrow>
            (if prompt = [] then (Inl prompt_required, s)
             else
               case resolveTarget e prompt imageSize model of
                 Inl err \<Rightarrow> (Inl err, s)
               | Inr (actualModel, endpointPath, apiUrl) \<Rightarrow>
                   (let s1 = emit (Submitted apiUrl) s in
                    case submit_reply w of
                      Inl err \<Rightarrow> (Inl (thrown_by err), s1)
                    | Inr job \<Rightarrow>
                        (if \<not> job_ok job then
                           (Inl (ApiError
                                   (case job_message job of
                                      None \<Rightarrow> ''Failed to start image generation''
                                    | Some m \<Rightarrow>
                                        if m = [] then ''Failed to start image generation'' else m)
                                   400 ''api_error'' None (Some ''generation_failed'')), s1)
                         else
                           case pollTaskCompletion (poll_replies w) (task_url job) s1 of
                             (Inl err, s2) \<Rightarrow> (Inl err, s2)
                           | (Inr img, s2) \<Rightarrow>
                               (case uploadToStorage e (upload w) (result_url img) (p_keyId ps)
                                       prompt (to_key actualModel) s2 of
                                  (Inl err, s3) \<Rightarrow> (Inl err, s3)
                                | (Inr imageUrl, s3) \<Rightarrow>
                               (let s4 = log_request (success_log_fault w)
                                           \<lparr>log_key_id = p_keyId ps, log_endpoint = endpointPath,
                                            log_prompt = prompt, log_model = to_key actualModel,
                                            log_status = ''success''\<rparr> s3
                                in
                                  if response_format = ''b64_json'' then
                                    (case imageToBase64 e (encode w) (result_url img) s4 of
                                       (Inl err, s5) \<Rightarrow> (Inl err, s5)
                                     | (Inr imageBase64, s5) \<Rightarrow>
                                         (case fill_data n (B64_json imageBase64) of
                                            Inl err \<Rightarrow> (Inl err, s5)
                                          | Inr d \<Rightarrow>
                                              (Inr \<lparr>creator = ''featherops'', created = created_now w,
                                                    resp_data = d\<rparr>, s5)))
                                  else
                                    (case fill_data n (Url imageUrl) of
                                       Inl err \<Rightarrow> (Inl err, s4)
                                     | Inr d \<Rightarrow>
                                         (Inr \<lparr>creator = ''featherops'', created = created_now w,
                                               resp_data = d\<rparr>, s4))))))))"

text \<open>
  The \<open>catch\<close> of \<open>generateImage\<close>: an error row in \<open>request_logs\<close> when the
  params carry a key id, then the \<open>ApiError\<close> as it is, or any other error wrapped.
  A body that never settles reaches no \<open>catch\<close>: nothing is logged and the call never
  settles.
\<close>

definition or_unknown :: "string option \<Rightarrow> string" where
  "or_unknown v = (case v of None \<Rightarrow> ''unknown'' | Some x \<Rightarrow> if x = [] then ''unknown'' else x)"

definition generateImage :: "env \<Rightarrow> world \<Rightarrow> params \<Rightarrow> sys \<Rightarrow> (failure + response) \<times> sys" where
  "generateImage e w ps s =
     (case generateImage_try e w ps s of
        (Inr r, s') \<Rightarrow> (Inr r, s')
      | (Inl err, s') \<Rightarrow>
          (let s'' =
                 (if p_keyId ps \<noteq> [] then
                    log_request (error_log_fault w)
                      \<lparr>log_key_id = p_keyId ps,
                       log_endpoint =
                         (case err of ApiError m c t pa co \<Rightarrow> ''unknown''
                          | OtherError m st u \<Rightarrow> or_unknown u
                          | NeverSettles \<Rightarrow> ''unknown''),
                       log_prompt = or_unknown (p_prompt ps),
                       log_model = or_unknown (p_model ps),
                       log_status = ''error''\<rparr> s'
                  else s')
           in
             case err of
               ApiError m c t pa co \<Rightarrow> (Inl err, s'')
             | OtherError m st u \<Rightarrow>
                 (Inl (ApiError (if m = [] then ''Failed to generate image'' else m)
                         (case st of None \<Rightarrow> 500 | Some c \<Rightarrow> if c = 0 then 500 else c)
                         ''api_error'' None (Some ''generation_error'')), s'')
             | NeverSettles \<Rightarrow> (Inl NeverSettles, s')))"

section \<open>Route: POST /v1/images/generations\<close>

text \<open>
  The fields of \<open>req.body\<close> the handler reads; \<open>None\<close> is a field that is not there.
  The prompt, the size, the format and the model are strings. The handler reads \<open>n\<close>
  with \<open>n ? parseInt(n) : 1\<close>, which depends on whether the value is truthy and on
  the string \<open>String(n)\<close> that \<open>parseInt\<close> parses, so \<open>n\<close> is any JSON value: null,
  a boolean, a number carried by the text \<open>String\<close> gives for it (\<open>3\<close>, \<open>2.5\<close>,
  \<open>1e+21\<close>), a string, or an array or object carried by its text likewise.
\<close>

datatype js_value = JNull | JBool bool | JNum string | JStr string | JObj string

fun js_truthy :: "js_value \<Rightarrow> bool" where
  "js_truthy JNull = False"
| "js_truthy (JBool b) = b"
| "js_truthy (JNum t) = (t \<noteq> ''0'')"
| "js_truthy (JStr t) = (t \<noteq> [])"
| "js_truthy (JObj t) = True"

fun js_String :: "js_value \<Rightarrow> string" where
  "js_String JNull = ''null''"
| "js_String (JBool b) = (if b then ''true'' else ''false'')"
| "js_String (JNum t) = t"
| "js_String (JStr t) = t"
| "js_String (JObj t) = t"

text \<open>
  \<open>parseInt(text)\<close> with no radix: white space is skipped, then a sign, then \<open>0x\<close> or
  \<open>0X\<close> for base 16, then the longest run of digits of the base is read; with no digit
  there the result is NaN, here \<open>None\<close>. The characters of a \<open>string\<close> are those of
  code below 256, of which the white space is tab, line feed, vertical tab, form feed,
  carriage return, space and no-break space.
\<close>

definition is_space :: "char \<Rightarrow> bool" where
  "is_space c = (c \<in> set [CHR 0x09, CHR 0x0A, CHR 0x0B, CHR 0x0C, CHR 0x0D, CHR 0x20, CHR 0xA0])"

definition digit_of :: "char \<Rightarrow> nat option" where
  "digit_of c =
     map_of [(CHR ''0'', 0), (CHR ''1'', 1), (CHR ''2'', 2), (CHR ''3'', 3), (CHR ''4'', 4),
             (CHR ''5'', 5), (CHR ''6'', 6), (CHR ''7'', 7), (CHR ''8'', 8), (CHR ''9'', 9),
             (CHR ''a'', 10), (CHR ''b'', 11), (CHR ''c'', 12), (CHR ''d'', 13),
             (CHR ''e'', 14), (CHR ''f'', 15),
             (CHR ''A'', 10), (CHR ''B'', 11), (CHR ''C'', 12), (CHR ''D'', 13),
             (CHR ''E'', 14), (CHR ''F'', 15)] c"

fun read_digits :: "nat \<Rightarrow> string \<Rightarrow> nat option \<Rightarrow> nat option" where
  "read_digits radix [] acc = acc"
| "read_digits radix (c # cs) acc =
     (case digit_of c of
        None \<Rightarrow> acc
      | Some d \<Rightarrow>
          if d < radix
          then read_digits radix cs (Some (radix * (case acc of None \<Rightarrow> 0 | Some a \<Rightarrow> a) + d))
          else acc)"

definition parseInt :: "string \<Rightarrow> int option" where
  "parseInt str =
     (let s0 = dropWhile is_space str;
          negative = (take 1 s0 = ''-'');
          s1 = (if take 1 s0 = ''-'' \<or> take 1 s0 = ''+'' then drop 1 s0 else s0);
          hex = (take 2 s1 = ''0x'' \<or> take 2 s1 = ''0X'');
          s2 = (if hex then drop 2 s1 else s1)
      in case read_digits (if hex then 16 else 10) s2 None of
           None \<Rightarrow> None
         | Some m \<Rightarrow> Some (if negative then - int m else int m))"

record body =
  body_prompt :: "string option"
  body_n :: "js_value option"
  body_size :: "string option"
  body_response_format :: "string option"
  body_model :: "string option"

text \<open>\<open>const numImages = n ? parseInt(n) : 1\<close>, with \<open>None\<close> for NaN.\<close>

definition numImages :: "body \<Rightarrow> int option" where
  "numImages b =
     (case body_n b of
        None \<Rightarrow> Some 1
      | Some v \<Rightarrow> if js_truthy v then parseInt (js_String v) else Some 1)"

fun join_comma :: "string list \<Rightarrow> string" where
  "join_comma [] = []"
| "join_comma [x] = x"
| "join_comma (x # y # ys) = x @ '', '' @ join_comma (y # ys)"

definition invalid_param :: "string \<Rightarrow> string \<Rightarrow> failure" where
  "invalid_param msg name =
     ApiError msg 400 ''invalid_request_error'' (Some name) (Some ''param_invalid'')"

text \<open>
  Lines 22 to 82 of the handler: the checks, in their order, and the params built.
  \<open>isNaN(numImages) || numImages < 1 || numImages > 10\<close> is the second check.
\<close>

definition validate :: "body \<Rightarrow> string \<Rightarrow> failure + params" where
  "validate b keyId =
     (if body_prompt b = None \<or> body_prompt b = Some [] then Inl prompt_required
      else
        case numImages b of
          None \<Rightarrow> Inl (invalid_param ''n must be between 1 and 10'' ''n'')
        | Some k \<Rightarrow>
          if k < 1 \<or> k > 10 then
            Inl (invalid_param ''n must be between 1 and 10'' ''n'')
          else if (case body_size b of None \<Rightarrow> False
                   | Some z \<Rightarrow> z \<noteq> [] \<and> z \<notin> set SUPPORTED_SIZES) then
            Inl (invalid_param (''Invalid size. Must be one of: '' @ join_comma SUPPORTED_SIZES)
                   ''size'')
          else if (case body_response_format b of None \<Rightarrow> False
                   | Some f \<Rightarrow> f \<noteq> [] \<and> f \<notin> set SUPPORTED_FORMATS) then
            Inl (invalid_param
                   (''Invalid response_format. Must be one of: '' @ join_comma SUPPORTED_FORMATS)
                   ''response_format'')
          else if (case body_model b of None \<Rightarrow> False
                   | Some m \<Rightarrow> m \<noteq> [] \<and> m \<notin> set SUPPORTED_MODELS \<and>
                              \<not> truthy (js_get OPENAI_MODEL_MAP m)) then
            Inl (invalid_param (''Invalid model. Must be one of: '' @ join_comma SUPPORTED_MODELS)
                   ''model'')
          else
            Inr \<lparr>p_prompt = body_prompt b, p_n = Some k, p_size = body_size b,
                 p_model = body_model b, p_response_format = body_response_format b,
                 p_keyId = keyId\<rparr>)"

text \<open>
  The handler after the two middlewares: \<open>Inr\<close> is the body of the 200 answer,
  \<open>Inl\<close> the error handed to \<open>next\<close>.
\<close>

definition post_generations ::
  "env \<Rightarrow> world \<Rightarrow> body \<Rightarrow> string \<Rightarrow> sys \<Rightarrow> (failure + response) \<times> sys" where
  "post_generations e w b keyId s =
     (case validate b keyId of
        Inl err \<Rightarrow> (Inl err, s)
      | Inr ps \<Rightarrow> generateImage e w ps s)"

section \<open>Reading a trace\<close>

fun is_Submitted :: "event \<Rightarrow> bool" where
  "is_Submitted (Submitted u) = True"
| "is_Submitted ev = False"

fun is_Polled :: "event \<Rightarrow> bool" where
  "is_Polled (Polled u) = True"
| "is_Polled ev = False"

fun is_RequestLogged :: "event \<Rightarrow> bool" where
  "is_RequestLogged (RequestLogged r) = True"
| "is_RequestLogged ev = False"

definition submissions :: "sys \<Rightarrow> nat" where
  "submissions s = length (filter is_Submitted (trace s))"

definition polls :: "sys \<Rightarrow> nat" where
  "polls s = length (filter is_Polled (trace s))"

definition log_records :: "sys \<Rightarrow> nat" where
  "log_records s = length (filter is_RequestLogged (trace s))"

text \<open>An attempt's answer that ends the loop: status \<open>done\<close> with a URL.\<close>

definition is_done :: "rejection + poll_data \<Rightarrow> bool" where
  "is_done r =
     (case r of Inl e \<Rightarrow> False
      | Inr d \<Rightarrow> poll_status d = Some ''done'' \<and> poll_url d \<noteq> None \<and> poll_url d \<noteq> Some [])"

definition is_failure :: "rejection + poll_data \<Rightarrow> bool" where
  "is_failure r = (case r of Inl e \<Rightarrow> False | Inr d \<Rightarrow> poll_status d = Some ''error'')"

section \<open>Concrete inputs\<close>

text \<open>
  Midnight UTC of one day is 1728000000000 ms; the requests below fall in that day, on a
  server whose local zone is UTC.
\<close>

definition at_ms :: "int \<Rightarrow> clock" where
  "at_ms t = \<lparr>now = t, now_again = t, tzOffset = 0, tzOffset_at_midnight = 0\<rparr>"

definition day_calls :: "clock list" where
  "day_calls = [at_ms 1728000001000, at_ms 1728000002000, at_ms 1728000003000,
                at_ms 1728000004000]"

definition key0 :: api_key where
  "key0 = \<lparr>apiKey_id = ''key-1'', rateLimit = Some 0\<rparr>"

definition key2 :: api_key where
  "key2 = \<lparr>apiKey_id = ''key-1'', rateLimit = Some 2\<rparr>"

definition key3 :: api_key where
  "key3 = \<lparr>apiKey_id = ''key-1'', rateLimit = Some 3\<rparr>"

text \<open>A row left from the day before, with its count at the ceiling.\<close>

definition stale_table :: rate_limits where
  "stale_table =
     [''key-1'' \<mapsto> \<lparr>key_id = ''key-1'', requests_count = 3, last_reset = 1727999999000,
                       max_requests = 3\<rparr>]"

text \<open>A row of the current day, with its count at the ceiling.\<close>

definition full_table :: rate_limits where
  "full_table =
     [''key-1'' \<mapsto> \<lparr>key_id = ''key-1'', requests_count = 3, last_reset = 1728000000500,
                       max_requests = 3\<rparr>]"

text \<open>A store that answers every update with \<open>{error}\<close>.\<close>

definition update_rejected :: store_faults where
  "update_rejected = \<lparr>on_select = Works, on_upsert = Works, on_update = ReturnsError\<rparr>"

text \<open>
  A request at 23:30 local time on a day of 25 hours: the zone is one hour ahead of UTC
  at the request and was two hours ahead at the day's midnight, 24.5 hours before.
\<close>

definition late_on_long_day :: clock where
  "late_on_long_day =
     \<lparr>now = 1728081000000, now_again = 1728081000000, tzOffset = 3600000,
      tzOffset_at_midnight = 7200000\<rparr>"

text \<open>
  A row written at 00:20 local time of that day, 24 hours and 10 minutes before the
  request, with its count at the ceiling.
\<close>

definition long_day_table :: rate_limits where
  "long_day_table =
     [''key-1'' \<mapsto> \<lparr>key_id = ''key-1'', requests_count = 3, last_reset = 1727994000000,
                       max_requests = 3\<rparr>]"

definition select_down :: store_faults where
  "select_down = \<lparr>on_select = Throws, on_upsert = Works, on_update = Works\<rparr>"

definition env0 :: env where
  "env0 = \<lparr>API_BASE_URL = ''http://upstream'', TEMP_IMAGE_DIR = None,
           encodeURIComponent = (\<lambda>x. x), base64 = (\<lambda>x. x),
           path_join = (\<lambda>dir file. (if take 2 dir = ''./'' then drop 2 dir else dir) @ ''/'' @ file)\<rparr>"

definition s0 :: sys where
  "s0 = \<lparr>trace = [], temp_files = {}\<rparr>"

definition done_reply :: "rejection + poll_data" where
  "done_reply =
     Inr \<lparr>poll_status = Some ''done'', poll_url = Some ''http://upstream/img.png'',
          poll_message = None\<rparr>"

definition pending_reply :: "rejection + poll_data" where
  "pending_reply = Inr \<lparr>poll_status = Some ''pending'', poll_url = None, poll_message = None\<rparr>"

definition error_reply :: "rejection + poll_data" where
  "error_reply =
     Inr \<lparr>poll_status = Some ''error'', poll_url = None, poll_message = Some ''nsfw prompt''\<rparr>"

definition transfer_ok :: transfer_world where
  "transfer_ok =
     \<lparr>uuid = ''u1'', mkdir_throws = False, download_reply = Inr ''PNG-bytes'',
      write_outcome = WriteFinished, read_throws = False, unlink_throws = False\<rparr>"

definition upload_ok :: upload_world where
  "upload_ok =
     \<lparr>transfer = transfer_ok, upload_reply = Inr None,
      sign_reply = Inr \<lparr>signedUrl = Some ''http://storage/signed'', signedUrlError = None\<rparr>,
      insert_throws = False\<rparr>"

text \<open>The download of the image starts and breaks off in the middle of the body.\<close>

definition upload_stream_breaks :: upload_world where
  "upload_stream_breaks = upload_ok\<lparr>transfer := transfer_ok\<lparr>write_outcome := SourceBroke\<rparr>\<rparr>"

text \<open>The download of the image is refused.\<close>

definition upload_download_refused :: upload_world where
  "upload_download_refused =
     upload_ok\<lparr>transfer := transfer_ok\<lparr>download_reply :=
       Inl (Rejection ''Request failed with status code 404'' (Some 404)
              (Some ''http://upstream/img.png''))\<rparr>\<rparr>"

definition upload_put_fails :: upload_world where
  "upload_put_fails = upload_ok\<lparr>upload_reply := Inr (Some ''bucket not found'')\<rparr>"

definition world_ok :: world where
  "world_ok =
     \<lparr>submit_reply = Inr \<lparr>job_ok = True, job_message = None,
                           task_url = Some ''http://upstream/task/1''\<rparr>,
      poll_replies = (\<lambda>i. if i < 2 then pending_reply else done_reply),
      upload = upload_ok,
      encode = transfer_ok\<lparr>uuid := ''u2''\<rparr>,
      success_log_fault = Works, error_log_fault = Works, created_now = 1728000000\<rparr>"

definition body_ok :: body where
  "body_ok =
     \<lparr>body_prompt = Some ''a cat'', body_n = Some (JNum ''3''), body_size = None,
      body_response_format = None, body_model = Some ''dall-e-3''\<rparr>"

section \<open>The quota ledger\<close>

lemma limiter_reset:
  fixes k :: api_key and c :: clock
  assumes "apiKey_id k \<noteq> []"
    and "case tbl (apiKey_id k) of None \<Rightarrow> True | Some d \<Rightarrow> last_reset d < resetTime c"
  shows "createDynamicRateLimiter no_faults c (Some k) tbl =
           \<lparr>table = tbl(apiKey_id k \<mapsto>
                \<lparr>key_id = apiKey_id k, requests_count = 1, last_reset = now c,
                 max_requests = rateLimit_or_default (rateLimit k)\<rparr>),
            outcome = Next, headers = None,
            store_calls = [(Select, False), (Upsert, False)]\<rparr>"
  using assms
  by (auto simp: createDynamicRateLimiter_def after_select_def db_select_def db_upsert_def
      no_faults_def split: option.splits)

lemma limiter_in_day:
  fixes k :: api_key and c :: clock and d :: rate_limit_row
  assumes "apiKey_id k \<noteq> []"
    and "tbl (apiKey_id k) = Some d"
    and "resetTime c \<le> last_reset d"
  shows "createDynamicRateLimiter no_faults c (Some k) tbl =
           (if requests_count d \<ge> max_requests d then
              \<lparr>table = tbl, outcome = Respond429, headers = None,
               store_calls = [(Select, False)]\<rparr>
            else
              \<lparr>table = tbl(apiKey_id k \<mapsto> d\<lparr>requests_count := requests_count d + 1\<rparr>),
               outcome = Next,
               headers = Some (max_requests d, max_requests d - requests_count d - 1,
                               resetTime c div 1000 + 86400),
               store_calls = [(Select, False), (Update, False)]\<rparr>)"
  using assms
  by (auto simp: createDynamicRateLimiter_def after_select_def db_select_def db_update_def
      no_faults_def split: option.splits)

text \<open>
  From a row of the current day on, the calls are admitted until the count reaches the
  row's ceiling, and denied from then on.
\<close>

lemma runCalls_in_day:
  fixes k :: api_key and d :: rate_limit_row
  assumes "apiKey_id k \<noteq> []"
    and "tbl (apiKey_id k) = Some d"
    and "\<forall>c\<in>set cs. resetTime c \<le> last_reset d"
    and "requests_count d \<le> max_requests d"
  shows "fst (runCalls no_faults k tbl cs) =
           replicate (min (length cs) (nat (max_requests d - requests_count d))) Next @
           replicate (length cs - nat (max_requests d - requests_count d)) Respond429"
  using assms
proof (induction cs arbitrary: tbl d)
  case Nil
  then show ?case by simp
next
  case (Cons c cs)
  have day: "resetTime c \<le> last_reset d" using Cons.prems(3) by simp
  show ?case
  proof (cases "requests_count d \<ge> max_requests d")
    case True
    then have eq: "max_requests d - requests_count d = 0" using Cons.prems(4) by simp
    have step: "createDynamicRateLimiter no_faults c (Some k) tbl =
        \<lparr>table = tbl, outcome = Respond429, headers = None, store_calls = [(Select, False)]\<rparr>"
      using limiter_in_day[where k=k and tbl=tbl and c=c and d=d, OF Cons.prems(1,2) day] True
      by simp
    have ih: "fst (runCalls no_faults k tbl cs) = replicate (length cs) Respond429"
      using Cons.IH[where tbl=tbl and d=d, OF Cons.prems(1,2) _ Cons.prems(4)] Cons.prems(3) eq
      by simp
    show ?thesis using step ih eq by (simp add: split_beta Let_def)
  next
    case False
    define d' where "d' = d\<lparr>requests_count := requests_count d + 1\<rparr>"
    define tbl' where "tbl' = tbl(apiKey_id k \<mapsto> d')"
    have step: "createDynamicRateLimiter no_faults c (Some k) tbl =
        \<lparr>table = tbl', outcome = Next,
         headers = Some (max_requests d, max_requests d - requests_count d - 1,
                         resetTime c div 1000 + 86400),
         store_calls = [(Select, False), (Update, False)]\<rparr>"
      using limiter_in_day[where k=k and tbl=tbl and c=c and d=d, OF Cons.prems(1,2) day] False
      by (simp add: tbl'_def d'_def)
    have a: "tbl' (apiKey_id k) = Some d'" by (simp add: tbl'_def)
    have b: "\<forall>c\<in>set cs. resetTime c \<le> last_reset d'" using Cons.prems(3) by (simp add: d'_def)
    have c: "requests_count d' \<le> max_requests d'" using False by (simp add: d'_def)
    have ih: "fst (runCalls no_faults k tbl' cs) =
           replicate (min (length cs) (nat (max_requests d' - requests_count d'))) Next @
           replicate (length cs - nat (max_requests d' - requests_count d')) Respond429"
      by (rule Cons.IH[where tbl=tbl' and d=d', OF Cons.prems(1) a b c])
    obtain m where m: "nat (max_requests d - requests_count d) = Suc m"
      and m': "nat (max_requests d' - requests_count d') = m"
      using False by (cases "nat (max_requests d - requests_count d)") (auto simp: d'_def)
    show ?thesis using step ih m m' by (simp add: split_beta Let_def)
  qed
qed

text \<open>The same from the first call of a day, which rewrites the row.\<close>

lemma runCalls_from_reset:
  fixes k :: api_key
  assumes id: "apiKey_id k \<noteq> []"
    and C: "rateLimit k = Some C" "1 \<le> C"
    and fresh: "case tbl (apiKey_id k) of None \<Rightarrow> True | Some d \<Rightarrow> last_reset d < r"
    and day: "\<forall>c\<in>set cs. resetTime c = r \<and> r \<le> now c"
  shows "fst (runCalls no_faults k tbl cs) =
           replicate (min (length cs) (nat C)) Next @ replicate (length cs - nat C) Respond429"
proof (cases cs)
  case Nil
  then show ?thesis by simp
next
  case (Cons c cs')
  define d where "d = \<lparr>key_id = apiKey_id k, requests_count = 1, last_reset = now c,
                 max_requests = rateLimit_or_default (rateLimit k)\<rparr>"
  have mx: "max_requests d = C" using C by (simp add: d_def rateLimit_or_default_def)
  have rc: "resetTime c = r" using day Cons by simp
  have step: "createDynamicRateLimiter no_faults c (Some k) tbl =
           \<lparr>table = tbl(apiKey_id k \<mapsto> d), outcome = Next, headers = None,
            store_calls = [(Select, False), (Upsert, False)]\<rparr>"
  proof -
    have fresh': "case tbl (apiKey_id k) of None \<Rightarrow> True
                  | Some d \<Rightarrow> last_reset d < resetTime c"
      unfolding rc by (rule fresh)
    show ?thesis
      unfolding d_def by (rule limiter_reset[where k=k and tbl=tbl and c=c, OF id fresh'])
  qed
  have a: "(tbl(apiKey_id k \<mapsto> d)) (apiKey_id k) = Some d" by simp
  have b: "\<forall>c'\<in>set cs'. resetTime c' \<le> last_reset d"
    using day Cons by (simp add: d_def)
  have c: "requests_count d \<le> max_requests d" using mx C by (simp add: d_def)
  have rest: "fst (runCalls no_faults k (tbl(apiKey_id k \<mapsto> d)) cs') =
           replicate (min (length cs') (nat (C - 1))) Next @
           replicate (length cs' - nat (C - 1)) Respond429"
    using runCalls_in_day[where k=k and tbl="tbl(apiKey_id k \<mapsto> d)" and d=d and cs=cs',
        OF id a b c] mx
    by (simp add: d_def)
  obtain m where m: "nat C = Suc m" and m': "nat (C - 1) = m"
    using C(2) by (cases "nat C") auto
  show ?thesis using Cons step rest m m' by (simp add: split_beta Let_def)
qed

lemma denied_leaves_table:
  "outcome (createDynamicRateLimiter f c ak tbl) = Respond429 \<Longrightarrow>
   table (createDynamicRateLimiter f c ak tbl) = tbl"
  by (auto simp: createDynamicRateLimiter_def after_select_def
      split: option.splits sum.splits if_splits)

text \<open>
  On a day of 25 hours the local midnight is more than 24 hours back: at 23:30 local
  time it is 24.5 hours before the request, and a row written 24 hours and 10 minutes
  before the request is a row of the current day.
\<close>

lemma resetTime_on_long_day:
  "resetTime late_on_long_day = now late_on_long_day - 88200000 \<and>
   outcome (createDynamicRateLimiter no_faults late_on_long_day (Some key3) long_day_table) =
     Respond429"
  by (simp add: resetTime_def late_on_long_day_def long_day_table_def key3_def no_faults_def
      createDynamicRateLimiter_def after_select_def db_select_def)

text \<open>
  C2. For a credential with a non-empty id and a ceiling C of at least 1, on a store
  whose calls all succeed, take calls that run one after the other, that all compute the
  same local midnight \<open>r\<close> as the reset boundary and are made at or after it, and that
  begin with the day's first call (no row yet, or a row last reset before \<open>r\<close>). Then
  exactly the first C calls are admitted and every later one is answered 429 (rate limit
  exceeded). A denied call leaves the quota row as it was, on every store and at every
  time. And the first call of the day rewrites the row with a count of 1 and is admitted.
\<close>

theorem quota_admits_first_ceiling_calls:
  fixes k :: api_key
  assumes "apiKey_id k \<noteq> []"
    and "rateLimit k = Some C" and "1 \<le> C"
    and "case tbl (apiKey_id k) of None \<Rightarrow> True | Some d \<Rightarrow> last_reset d < r"
    and "\<forall>c\<in>set cs. resetTime c = r \<and> r \<le> now c"
  shows "fst (runCalls no_faults k tbl cs) =
           replicate (min (length cs) (nat C)) Next @ replicate (length cs - nat C) Respond429 \<and>
         (\<forall>f c ak t. outcome (createDynamicRateLimiter f c ak t) = Respond429 \<longrightarrow>
                     table (createDynamicRateLimiter f c ak t) = t) \<and>
         (\<forall>c. resetTime c = r \<longrightarrow>
              outcome (createDynamicRateLimiter no_faults c (Some k) tbl) = Next \<and>
              table (createDynamicRateLimiter no_faults c (Some k) tbl) (apiKey_id k) =
                Some \<lparr>key_id = apiKey_id k, requests_count = 1, last_reset = now c,
                      max_requests = C\<rparr>)"
proof (intro conjI allI impI)
  show "fst (runCalls no_faults k tbl cs) =
          replicate (min (length cs) (nat C)) Next @ replicate (length cs - nat C) Respond429"
    by (rule runCalls_from_reset[where k=k and tbl=tbl and r=r and cs=cs and C=C, OF assms])
next
  fix f c ak t
  assume "outcome (createDynamicRateLimiter f c ak t) = Respond429"
  then show "table (createDynamicRateLimiter f c ak t) = t" by (rule denied_leaves_table)
next
  fix c :: clock
  assume rc: "resetTime c = r"
  have fresh': "case tbl (apiKey_id k) of None \<Rightarrow> True | Some d \<Rightarrow> last_reset d < resetTime c"
    unfolding rc by (rule assms(4))
  note step = limiter_reset[where k=k and tbl=tbl and c=c, OF assms(1) fresh']
  show "outcome (createDynamicRateLimiter no_faults c (Some k) tbl) = Next"
    by (simp add: step)
  show "table (createDynamicRateLimiter no_faults c (Some k) tbl) (apiKey_id k) =
          Some \<lparr>key_id = apiKey_id k, requests_count = 1, last_reset = now c, max_requests = C\<rparr>"
    using assms(2,3) by (simp add: step rateLimit_or_default_def)
qed

theorem quota_admits_first_ceiling_calls_witness:
  "apiKey_id key3 \<noteq> [] \<and> rateLimit key3 = Some 3 \<and>
   map resetTime day_calls = [1728000000000, 1728000000000, 1728000000000, 1728000000000] \<and>
   map now day_calls = [1728000001000, 1728000002000, 1728000003000, 1728000004000] \<and>
   fst (runCalls no_faults key3 stale_table day_calls) = [Next, Next, Next, Respond429] \<and>
   outcome (createDynamicRateLimiter no_faults (at_ms 1728000001000) (Some key3) stale_table) = Next \<and>
   table (createDynamicRateLimiter no_faults (at_ms 1728000001000) (Some key3) stale_table) ''key-1'' =
     Some \<lparr>key_id = ''key-1'', requests_count = 1, last_reset = 1728000001000, max_requests = 3\<rparr>"
proof -
  have h1: "apiKey_id key3 \<noteq> []" by (simp add: key3_def)
  have h2: "rateLimit key3 = Some 3" by (simp add: key3_def)
  have h3: "(1::int) \<le> 3" by simp
  have h4: "case stale_table (apiKey_id key3) of None \<Rightarrow> True
            | Some d \<Rightarrow> last_reset d < 1728000000000"
    by (simp add: key3_def stale_table_def)
  have h5: "\<forall>c\<in>set day_calls. resetTime c = 1728000000000 \<and> 1728000000000 \<le> now c"
    by (simp add: day_calls_def at_ms_def resetTime_def)
  have h6: "map resetTime day_calls =
      [1728000000000, 1728000000000, 1728000000000, 1728000000000]"
    by (simp add: day_calls_def at_ms_def resetTime_def)
  have h7: "map now day_calls = [1728000001000, 1728000002000, 1728000003000, 1728000004000]"
    by (simp add: day_calls_def at_ms_def)
  have r: "resetTime (at_ms 1728000001000) = 1728000000000"
    by (simp add: at_ms_def resetTime_def)
  have len: "length day_calls = 4" by (simp add: day_calls_def)
  have rep: "replicate (min 4 (nat 3)) Next @ replicate (4 - nat 3) Respond429 =
      [Next, Next, Next, Respond429]"
    by (simp add: numeral_eq_Suc)
  have id: "apiKey_id key3 = ''key-1''" by (simp add: key3_def)
  have nw: "now (at_ms 1728000001000) = 1728000001000" by (simp add: at_ms_def)
  note main = quota_admits_first_ceiling_calls[where k=key3 and tbl=stale_table
        and r=1728000000000 and cs=day_calls and C=3, OF h1 h2 h3 h4 h5]
  have a: "fst (runCalls no_faults key3 stale_table day_calls) = [Next, Next, Next, Respond429]"
    using main by (simp only: len rep)
  have b: "outcome (createDynamicRateLimiter no_faults (at_ms 1728000001000) (Some key3) stale_table) = Next \<and>
   table (createDynamicRateLimiter no_faults (at_ms 1728000001000) (Some key3) stale_table) ''key-1'' =
     Some \<lparr>key_id = ''key-1'', requests_count = 1, last_reset = 1728000001000, max_requests = 3\<rparr>"
    using main r by (simp only: id nw)
  show ?thesis using h1 h2 h6 h7 a b by blast
qed

text \<open>
  Two sequences of calls of one day of which not exactly the first C are admitted. A
  ceiling of 0 is taken for a missing one: the row is written with the default of 100,
  and the first call of the day is admitted. And the answer of the update is not looked
  at: when the store answers every update with an error, the count stays at 1, and of
  four calls of a credential with ceiling 3, one after the other, all four are admitted.
\<close>

theorem quota_overrun_counterexample:
  "rateLimit key0 = Some 0 \<and>
   fst (runCalls no_faults key0 Map.empty [at_ms 1728000001000]) = [Next] \<and>
   table (createDynamicRateLimiter no_faults (at_ms 1728000001000) (Some key0) Map.empty) ''key-1'' =
     Some \<lparr>key_id = ''key-1'', requests_count = 1, last_reset = 1728000001000,
           max_requests = 100\<rparr> \<and>
   rateLimit key3 = Some 3 \<and>
   runCalls update_rejected key3 stale_table day_calls =
     ([Next, Next, Next, Next],
      stale_table(''key-1'' \<mapsto>
        \<lparr>key_id = ''key-1'', requests_count = 1, last_reset = 1728000001000,
         max_requests = 3\<rparr>))"
proof -
  have a: "rateLimit key0 = Some 0 \<and>
   fst (runCalls no_faults key0 Map.empty [at_ms 1728000001000]) = [Next] \<and>
   table (createDynamicRateLimiter no_faults (at_ms 1728000001000) (Some key0) Map.empty) ''key-1'' =
     Some \<lparr>key_id = ''key-1'', requests_count = 1, last_reset = 1728000001000,
           max_requests = 100\<rparr>"
    by (simp add: key0_def at_ms_def createDynamicRateLimiter_def after_select_def db_select_def
        db_upsert_def no_faults_def rateLimit_or_default_def)
  have b: "rateLimit key3 = Some 3" by (simp add: key3_def)
  have c: "runCalls update_rejected key3 stale_table day_calls =
     ([Next, Next, Next, Next],
      stale_table(''key-1'' \<mapsto>
        \<lparr>key_id = ''key-1'', requests_count = 1, last_reset = 1728000001000,
         max_requests = 3\<rparr>))"
    by (simp add: key3_def day_calls_def at_ms_def stale_table_def update_rejected_def
        createDynamicRateLimiter_def after_select_def db_select_def db_upsert_def db_update_def
        resetTime_def rateLimit_or_default_def)
  show ?thesis using a b c by blast
qed

text \<open>
  C9. The read of the count and its write are two store calls with an await between
  them, and nothing makes the pair atomic. What holds is this: for a credential with a
  non-empty id and a ceiling C of at least 1, on a store whose calls all succeed, calls
  that run one after the other, each finished before the next starts, that all compute
  the same local midnight \<open>r\<close> as the reset boundary and are made at or after it, and
  that begin with the day's first call (no row yet, or a row last reset before \<open>r\<close>),
  are admitted at most C times.
\<close>

theorem sequential_calls_admit_at_most_ceiling:
  fixes k :: api_key
  assumes "apiKey_id k \<noteq> []"
    and "rateLimit k = Some C" and "1 \<le> C"
    and "case tbl (apiKey_id k) of None \<Rightarrow> True | Some d \<Rightarrow> last_reset d < r"
    and "\<forall>c\<in>set cs. resetTime c = r \<and> r \<le> now c"
  shows "length (filter (\<lambda>out. out = Next) (fst (runCalls no_faults k tbl cs))) \<le> nat C"
proof -
  have "fst (runCalls no_faults k tbl cs) =
          replicate (min (length cs) (nat C)) Next @ replicate (length cs - nat C) Respond429"
    by (rule runCalls_from_reset[where k=k and tbl=tbl and r=r and cs=cs and C=C, OF assms])
  then show ?thesis by simp
qed

theorem sequential_calls_admit_at_most_ceiling_witness:
  "apiKey_id key3 \<noteq> [] \<and> rateLimit key3 = Some 3 \<and>
   map resetTime day_calls = [1728000000000, 1728000000000, 1728000000000, 1728000000000] \<and>
   map now day_calls = [1728000001000, 1728000002000, 1728000003000, 1728000004000] \<and>
   length (filter (\<lambda>out. out = Next) (fst (runCalls no_faults key3 stale_table day_calls))) \<le> 3"
proof -
  have h1: "apiKey_id key3 \<noteq> []" by (simp add: key3_def)
  have h2: "rateLimit key3 = Some 3" by (simp add: key3_def)
  have h3: "(1::int) \<le> 3" by simp
  have h4: "case stale_table (apiKey_id key3) of None \<Rightarrow> True
            | Some d \<Rightarrow> last_reset d < 1728000000000"
    by (simp add: key3_def stale_table_def)
  have h5: "\<forall>c\<in>set day_calls. resetTime c = 1728000000000 \<and> 1728000000000 \<le> now c"
    by (simp add: day_calls_def at_ms_def resetTime_def)
  have "length (filter (\<lambda>out. out = Next) (fst (runCalls no_faults key3 stale_table day_calls))) \<le> nat 3"
    by (rule sequential_calls_admit_at_most_ceiling[where k=key3 and tbl=stale_table
        and r=1728000000000 and cs=day_calls and C=3, OF h1 h2 h3 h4 h5])
  moreover have "map resetTime day_calls =
      [1728000000000, 1728000000000, 1728000000000, 1728000000000]"
    by (simp add: day_calls_def at_ms_def resetTime_def)
  moreover have "map now day_calls =
      [1728000001000, 1728000002000, 1728000003000, 1728000004000]"
    by (simp add: day_calls_def at_ms_def)
  ultimately show ?thesis using h1 h2 by simp
qed

text \<open>
  Three requests of a credential with ceiling 2, on an empty table and a store whose
  calls all succeed: the first runs alone; the second and the third both read the count
  1 before either writes, and both are admitted.
\<close>

theorem interleaved_calls_counterexample:
  "rateLimit key2 = Some 2 \<and>
   snd (interleave (at_ms 1728000001000) key2 [0, 0, 1, 2, 1, 2]
          (Map.empty, [NotStarted, NotStarted, NotStarted])) =
     [Finished Next, Finished Next, Finished Next]"
  by (simp add: key2_def at_ms_def db_select_def after_select_def db_upsert_def db_update_def
      no_faults_def resetTime_def rateLimit_or_default_def)

text \<open>
  C10. When a call to the rate-limit store throws, be it the lookup, the upsert or the
  update, the middleware calls \<open>next()\<close>: the request is admitted.
\<close>

theorem limiter_fails_open:
  "(op, True) \<in> set (store_calls (createDynamicRateLimiter f c ak tbl)) \<Longrightarrow>
   outcome (createDynamicRateLimiter f c ak tbl) = Next"
  by (auto simp: createDynamicRateLimiter_def after_select_def
      split: option.splits sum.splits if_splits)

theorem limiter_fails_open_witness:
  "(Select, True) \<in> set (store_calls (createDynamicRateLimiter select_down
       (at_ms 1728000001000) (Some key3) full_table)) \<and>
   outcome (createDynamicRateLimiter select_down (at_ms 1728000001000) (Some key3) full_table) = Next \<and>
   outcome (createDynamicRateLimiter no_faults (at_ms 1728000001000) (Some key3) full_table) = Respond429"
proof -
  have h: "(Select, True) \<in> set (store_calls (createDynamicRateLimiter select_down
       (at_ms 1728000001000) (Some key3) full_table))"
    by (simp add: createDynamicRateLimiter_def after_select_def db_select_def select_down_def
        key3_def)
  have d: "outcome (createDynamicRateLimiter no_faults (at_ms 1728000001000) (Some key3) full_table) = Respond429"
    by (simp add: createDynamicRateLimiter_def after_select_def db_select_def no_faults_def
        key3_def full_table_def at_ms_def resetTime_def)
  show ?thesis using limiter_fails_open[OF h] h d by simp
qed

section \<open>The poll loop\<close>

declare pollFrom.simps [simp del]

lemma polls_emit [simp]: "polls (emit ev s) = polls s + (if is_Polled ev then 1 else 0)"
  by (simp add: polls_def emit_def)

lemma submissions_emit [simp]:
  "submissions (emit ev s) = submissions s + (if is_Submitted ev then 1 else 0)"
  by (simp add: submissions_def emit_def)

lemma counts_create_file [simp]:
  "polls (create_file f s) = polls s" "submissions (create_file f s) = submissions s"
  by (simp_all add: polls_def submissions_def create_file_def)

lemma counts_unlink_file [simp]:
  "polls (unlink_file f s) = polls s" "submissions (unlink_file f s) = submissions s"
  by (simp_all add: polls_def submissions_def unlink_file_def)

lemma counts_log_request [simp]:
  "polls (log_request f row s) = polls s" "submissions (log_request f row s) = submissions s"
  by (simp_all add: log_request_def split: store_fault.splits)

lemma pollAttempt_done:
  "is_done r \<Longrightarrow>
   \<exists>img. pollAttempt iv r t s = (Inr (Returned img), emit (Polled t) s)"
  by (auto simp: pollAttempt_def is_done_def Let_def split: sum.splits)

lemma pollAttempt_not_done:
  "\<not> is_done r \<Longrightarrow>
   (\<exists>e. pollAttempt iv r t s = (Inl e, emit (Polled t) s)) \<or>
   pollAttempt iv r t s = (Inr Fallthrough, emit (Waited iv) (emit (Polled t) s))"
  by (auto simp: pollAttempt_def is_done_def Let_def split: sum.splits)

lemma temp_files_emit [simp]: "temp_files (emit ev s) = temp_files s"
  by (simp add: emit_def)

lemma pollFrom_stop:
  "\<not> attempt < maxAttempts cfg \<Longrightarrow>
   pollFrom cfg replies t attempt s =
     (Inl (ApiError ''Image generation timed out'' 408 ''timeout_error'' None
             (Some ''generation_timeout'')), s)"
  by (subst pollFrom.simps) simp

lemma pollFrom_step_done:
  assumes "attempt < maxAttempts cfg" and "is_done (replies attempt)"
  shows "\<exists>img. pollFrom cfg replies t attempt s = (Inr img, emit (Polled t) s)"
proof -
  obtain img where "pollAttempt (interval cfg) (replies attempt) t s =
      (Inr (Returned img), emit (Polled t) s)"
    using pollAttempt_done[OF assms(2)] by blast
  then show ?thesis using assms(1) by (subst pollFrom.simps) simp
qed

lemma pollFrom_step_not_done:
  assumes "attempt < maxAttempts cfg" and "\<not> is_done (replies attempt)"
  shows "\<exists>s1. pollFrom cfg replies t attempt s = pollFrom cfg replies t (Suc attempt) s1 \<and>
              polls s1 = polls s + 1 \<and> submissions s1 = submissions s \<and>
              temp_files s1 = temp_files s"
proof -
  from pollAttempt_not_done[OF assms(2), of "interval cfg" t s]
  show ?thesis
  proof
    assume "\<exists>e. pollAttempt (interval cfg) (replies attempt) t s = (Inl e, emit (Polled t) s)"
    then obtain e where
      a: "pollAttempt (interval cfg) (replies attempt) t s = (Inl e, emit (Polled t) s)" ..
    have "pollFrom cfg replies t attempt s =
          pollFrom cfg replies t (Suc attempt) (emit (Waited (interval cfg)) (emit (Polled t) s))"
      using assms(1) a by (subst pollFrom.simps) simp
    then show ?thesis by (intro exI[of _ "emit (Waited (interval cfg)) (emit (Polled t) s)"]) simp
  next
    assume a: "pollAttempt (interval cfg) (replies attempt) t s =
                 (Inr Fallthrough, emit (Waited (interval cfg)) (emit (Polled t) s))"
    have "pollFrom cfg replies t attempt s =
          pollFrom cfg replies t (Suc attempt) (emit (Waited (interval cfg)) (emit (Polled t) s))"
      using assms(1) a by (subst pollFrom.simps) simp
    then show ?thesis by (intro exI[of _ "emit (Waited (interval cfg)) (emit (Polled t) s)"]) simp
  qed
qed

lemma pollFrom_timeout:
  assumes "\<forall>i. attempt \<le> i \<and> i < maxAttempts cfg \<longrightarrow> \<not> is_done (replies i)"
  shows "fst (pollFrom cfg replies t attempt s) =
           Inl (ApiError ''Image generation timed out'' 408 ''timeout_error'' None
                  (Some ''generation_timeout'')) \<and>
         polls (snd (pollFrom cfg replies t attempt s)) = polls s + (maxAttempts cfg - attempt)"
  using assms
proof (induction "maxAttempts cfg - attempt" arbitrary: attempt s)
  case 0
  then show ?case by (simp add: pollFrom_stop)
next
  case (Suc m)
  then have lt: "attempt < maxAttempts cfg" by simp
  then have nd: "\<not> is_done (replies attempt)" using Suc.prems by simp
  obtain s1 where s1: "pollFrom cfg replies t attempt s = pollFrom cfg replies t (Suc attempt) s1"
    "polls s1 = polls s + 1"
    using pollFrom_step_not_done[where replies=replies and attempt=attempt, OF lt nd] by blast
  have "m = maxAttempts cfg - Suc attempt" using Suc.hyps(2) by simp
  moreover have "\<forall>i. Suc attempt \<le> i \<and> i < maxAttempts cfg \<longrightarrow> \<not> is_done (replies i)"
    using Suc.prems by simp
  ultimately have "fst (pollFrom cfg replies t (Suc attempt) s1) =
           Inl (ApiError ''Image generation timed out'' 408 ''timeout_error'' None
                  (Some ''generation_timeout'')) \<and>
         polls (snd (pollFrom cfg replies t (Suc attempt) s1)) =
           polls s1 + (maxAttempts cfg - Suc attempt)"
    by (rule Suc.hyps(1))
  then show ?case using s1 lt by simp
qed

lemma pollFrom_effects:
  "submissions (snd (pollFrom cfg replies t attempt s)) = submissions s \<and>
   temp_files (snd (pollFrom cfg replies t attempt s)) = temp_files s \<and>
   polls (snd (pollFrom cfg replies t attempt s)) \<le> polls s + (maxAttempts cfg - attempt)"
proof (induction "maxAttempts cfg - attempt" arbitrary: attempt s)
  case 0
  then show ?case by (simp add: pollFrom_stop)
next
  case (Suc m)
  then have lt: "attempt < maxAttempts cfg" by simp
  show ?case
  proof (cases "is_done (replies attempt)")
    case True
    then obtain img where "pollFrom cfg replies t attempt s = (Inr img, emit (Polled t) s)"
      using pollFrom_step_done[where replies=replies and attempt=attempt, OF lt] by blast
    then show ?thesis using lt by simp
  next
    case False
    obtain s1 where s1: "pollFrom cfg replies t attempt s = pollFrom cfg replies t (Suc attempt) s1"
      "polls s1 = polls s + 1" "submissions s1 = submissions s" "temp_files s1 = temp_files s"
      using pollFrom_step_not_done[where replies=replies and attempt=attempt, OF lt False] by blast
    have "m = maxAttempts cfg - Suc attempt" using Suc.hyps(2) by simp
    then have "submissions (snd (pollFrom cfg replies t (Suc attempt) s1)) = submissions s1 \<and>
       temp_files (snd (pollFrom cfg replies t (Suc attempt) s1)) = temp_files s1 \<and>
       polls (snd (pollFrom cfg replies t (Suc attempt) s1)) \<le>
         polls s1 + (maxAttempts cfg - Suc attempt)"
      by (rule Suc.hyps(1))
    then show ?thesis using s1 lt by auto
  qed
qed

lemma pollFrom_returns:
  assumes "fst (pollFrom cfg replies t attempt s) = Inr img"
  shows "\<exists>k. attempt \<le> k \<and> k < maxAttempts cfg \<and> is_done (replies k) \<and>
             (\<forall>i. attempt \<le> i \<and> i < k \<longrightarrow> \<not> is_done (replies i)) \<and>
             polls (snd (pollFrom cfg replies t attempt s)) = polls s + (k - attempt) + 1"
  using assms
proof (induction "maxAttempts cfg - attempt" arbitrary: attempt s)
  case 0
  then show ?case by (simp add: pollFrom_stop)
next
  case (Suc m)
  then have lt: "attempt < maxAttempts cfg" by simp
  show ?case
  proof (cases "is_done (replies attempt)")
    case True
    then obtain img' where "pollFrom cfg replies t attempt s = (Inr img', emit (Polled t) s)"
      using pollFrom_step_done[where replies=replies and attempt=attempt, OF lt] by blast
    then show ?thesis using lt True by (intro exI[of _ attempt]) auto
  next
    case False
    obtain s1 where s1: "pollFrom cfg replies t attempt s = pollFrom cfg replies t (Suc attempt) s1"
      "polls s1 = polls s + 1"
      using pollFrom_step_not_done[where replies=replies and attempt=attempt, OF lt False] by blast
    have m: "m = maxAttempts cfg - Suc attempt" using Suc.hyps(2) by simp
    have r: "fst (pollFrom cfg replies t (Suc attempt) s1) = Inr img"
      using Suc.prems s1 by simp
    obtain k where k: "Suc attempt \<le> k" "k < maxAttempts cfg" "is_done (replies k)"
      "\<forall>i. Suc attempt \<le> i \<and> i < k \<longrightarrow> \<not> is_done (replies i)"
      "polls (snd (pollFrom cfg replies t (Suc attempt) s1)) = polls s1 + (k - Suc attempt) + 1"
      using Suc.hyps(1)[OF m r] by blast
    have "\<forall>i. attempt \<le> i \<and> i < k \<longrightarrow> \<not> is_done (replies i)"
    proof (intro allI impI)
      fix i assume "attempt \<le> i \<and> i < k"
      then show "\<not> is_done (replies i)" using k(4) False by (cases "i = attempt") auto
    qed
    then show ?thesis using k s1 by (intro exI[of _ k]) auto
  qed
qed



text \<open>
  C1. An explicit failure of the upstream (status \<open>error\<close>) is thrown inside the
  \<open>try\<close> of the loop and caught by the loop's own \<open>catch\<close>. On an upstream that
  answers every attempt with status \<open>error\<close>, the call makes all 60 attempts and ends
  in the 408 timeout error.
\<close>

theorem poll_explicit_failure_swallowed:
  "is_failure error_reply \<and>
   fst (pollAttempt 10000 error_reply (Some ''http://upstream/task/1'') s0) =
     Inl (ApiError ''nsfw prompt'' 400 ''api_error'' None (Some ''generation_failed'')) \<and>
   fst (pollTaskCompletion (\<lambda>i. error_reply) (Some ''http://upstream/task/1'') s0) =
     Inl (ApiError ''Image generation timed out'' 408 ''timeout_error'' None
            (Some ''generation_timeout'')) \<and>
   polls (snd (pollTaskCompletion (\<lambda>i. error_reply) (Some ''http://upstream/task/1'') s0)) = 60"
proof -
  have f: "is_failure error_reply" by (simp add: is_failure_def error_reply_def)
  have t: "fst (pollAttempt 10000 error_reply (Some ''http://upstream/task/1'') s0) =
     Inl (ApiError ''nsfw prompt'' 400 ''api_error'' None (Some ''generation_failed''))"
    by (simp add: pollAttempt_def error_reply_def Let_def)
  have nd: "\<forall>i. 0 \<le> i \<and> i < maxAttempts POLL_CONFIG \<longrightarrow> \<not> is_done ((\<lambda>i. error_reply) i)"
    by (simp add: is_done_def error_reply_def)
  have z: "polls s0 = 0" by (simp add: polls_def s0_def)
  have m: "maxAttempts POLL_CONFIG = 60" by (simp add: POLL_CONFIG_def)
  have "fst (pollFrom POLL_CONFIG (\<lambda>i. error_reply) (Some ''http://upstream/task/1'') 0 s0) =
           Inl (ApiError ''Image generation timed out'' 408 ''timeout_error'' None
                  (Some ''generation_timeout'')) \<and>
         polls (snd (pollFrom POLL_CONFIG (\<lambda>i. error_reply) (Some ''http://upstream/task/1'') 0 s0)) =
           polls s0 + (maxAttempts POLL_CONFIG - 0)"
    by (rule pollFrom_timeout[where attempt=0 and cfg=POLL_CONFIG
        and replies="\<lambda>i. error_reply", OF nd])
  then show ?thesis using f t by (simp add: pollTaskCompletion_def z m)
qed

section \<open>Materialization\<close>

lemma thrown_by_settles [simp]: "thrown_by r \<noteq> NeverSettles"
  by (cases r) simp

lemma thrown_settles [simp]: "thrown msg \<noteq> NeverSettles"
  by (simp add: thrown_def)

lemma uploadToStorage_try_Inr:
  assumes "fst (uploadToStorage_try e w sourceUrl keyId prompt model s) = Inr u"
  shows "mkdir_throws (transfer w) = False \<and>
         (\<exists>bytes. download_reply (transfer w) = Inr bytes) \<and>
         write_outcome (transfer w) = WriteFinished \<and>
         read_throws (transfer w) = False \<and>
         upload_reply w = Inr None \<and>
         (\<exists>sr. sign_reply w = Inr sr \<and> signedUrlError sr = None \<and> signedUrl sr = Some u) \<and>
         insert_throws w = False \<and>
         unlink_throws (transfer w) = False"
  using assms
  by (simp add: uploadToStorage_try_def Let_def
      split: if_splits sum.splits write_outcome.splits option.splits)

lemma uploadToStorage_try_success:
  assumes "mkdir_throws (transfer w) = False"
    and "download_reply (transfer w) = Inr bytes"
    and "write_outcome (transfer w) = WriteFinished"
    and "read_throws (transfer w) = False"
    and "upload_reply w = Inr None"
    and "sign_reply w = Inr sr" and "signedUrlError sr = None" and "signedUrl sr = Some u"
    and "insert_throws w = False"
    and "unlink_throws (transfer w) = False"
  shows "fst (uploadToStorage_try e w sourceUrl keyId prompt model s) = Inr u"
  using assms by (simp add: uploadToStorage_try_def Let_def)

text \<open>The body never settles exactly when the download starts and then breaks off.\<close>

lemma uploadToStorage_try_never_settles:
  "fst (uploadToStorage_try e w sourceUrl keyId prompt model s) = Inl NeverSettles \<longleftrightarrow>
     mkdir_throws (transfer w) = False \<and> (\<exists>bytes. download_reply (transfer w) = Inr bytes) \<and>
     write_outcome (transfer w) = SourceBroke"
  by (simp add: uploadToStorage_try_def Let_def
      split: if_splits sum.splits write_outcome.splits option.splits)

lemma uploadToStorage_fst:
  "fst (uploadToStorage e w sourceUrl keyId prompt model s) =
     (case fst (uploadToStorage_try e w sourceUrl keyId prompt model s) of
        Inl NeverSettles \<Rightarrow> Inl NeverSettles
      | Inl err \<Rightarrow> Inr sourceUrl
      | Inr u \<Rightarrow> Inr u)"
  by (simp add: uploadToStorage_def split: prod.splits sum.splits failure.splits)

text \<open>
  Apart from that case the call returns a URL: the source URL when the download, the
  storage put or the minting of the signed URL fails, by an error answer or by a throw,
  and the signed URL of the stored object when every step succeeds.
\<close>

lemma upload_falls_back_unless_download_breaks:
  assumes "write_outcome (transfer w) \<noteq> SourceBroke"
  shows "((\<exists>err. download_reply (transfer w) = Inl err) \<or>
          upload_reply w \<noteq> Inr None \<or>
          (\<forall>sr. sign_reply w = Inr sr \<longrightarrow> signedUrlError sr \<noteq> None) \<longrightarrow>
            fst (uploadToStorage e w sourceUrl keyId prompt model s) = Inr sourceUrl) \<and>
         (mkdir_throws (transfer w) = False \<and> download_reply (transfer w) = Inr bytes \<and>
          write_outcome (transfer w) = WriteFinished \<and> read_throws (transfer w) = False \<and>
          upload_reply w = Inr None \<and>
          sign_reply w = Inr \<lparr>signedUrl = Some u, signedUrlError = None\<rparr> \<and>
          insert_throws w = False \<and> unlink_throws (transfer w) = False \<longrightarrow>
            fst (uploadToStorage e w sourceUrl keyId prompt model s) = Inr u) \<and>
         (\<exists>v. fst (uploadToStorage e w sourceUrl keyId prompt model s) = Inr v)"
proof -
  have settles: "fst (uploadToStorage_try e w sourceUrl keyId prompt model s) \<noteq> Inl NeverSettles"
    using assms by (simp add: uploadToStorage_try_never_settles)
  show ?thesis
  proof (intro conjI impI)
    assume fails: "(\<exists>err. download_reply (transfer w) = Inl err) \<or>
      upload_reply w \<noteq> Inr None \<or>
      (\<forall>sr. sign_reply w = Inr sr \<longrightarrow> signedUrlError sr \<noteq> None)"
    show "fst (uploadToStorage e w sourceUrl keyId prompt model s) = Inr sourceUrl"
    proof (cases "fst (uploadToStorage_try e w sourceUrl keyId prompt model s)")
      case (Inl err)
      then show ?thesis using settles by (simp add: uploadToStorage_fst split: failure.splits)
    next
      case (Inr v)
      from uploadToStorage_try_Inr[OF Inr] fails show ?thesis by auto
    qed
  next
    assume ok: "mkdir_throws (transfer w) = False \<and> download_reply (transfer w) = Inr bytes \<and>
      write_outcome (transfer w) = WriteFinished \<and> read_throws (transfer w) = False \<and>
      upload_reply w = Inr None \<and>
      sign_reply w = Inr \<lparr>signedUrl = Some u, signedUrlError = None\<rparr> \<and>
      insert_throws w = False \<and> unlink_throws (transfer w) = False"
    have "fst (uploadToStorage_try e w sourceUrl keyId prompt model s) = Inr u"
      using ok by (intro uploadToStorage_try_success[where bytes=bytes
            and sr="\<lparr>signedUrl = Some u, signedUrlError = None\<rparr>"]) simp_all
    then show "fst (uploadToStorage e w sourceUrl keyId prompt model s) = Inr u"
      by (simp add: uploadToStorage_fst)
  next
    show "\<exists>v. fst (uploadToStorage e w sourceUrl keyId prompt model s) = Inr v"
      using settles
      by (cases "fst (uploadToStorage_try e w sourceUrl keyId prompt model s)")
        (simp_all add: uploadToStorage_fst split: failure.splits)
  qed
qed

text \<open>
  C4. A download that is refused makes \<open>uploadToStorage\<close> return the source URL. A
  download that starts and then breaks off in the middle of the body does not: the
  promise the function awaits listens to the writer only, the writer is told nothing of
  the broken source, and the call neither returns the source URL nor throws. It never
  settles, and the temporary file stays where it is.
\<close>

theorem upload_never_settles_when_download_breaks:
  "download_reply (transfer upload_stream_breaks) = Inr ''PNG-bytes'' \<and>
   write_outcome (transfer upload_stream_breaks) = SourceBroke \<and>
   fst (uploadToStorage env0 upload_stream_breaks ''http://upstream/img.png'' ''key-1'' ''a cat''
          ''dalle'' s0) = Inl NeverSettles \<and>
   temp_files (snd (uploadToStorage env0 upload_stream_breaks ''http://upstream/img.png''
          ''key-1'' ''a cat'' ''dalle'' s0)) = {''temp/u1.png''} \<and>
   fst (uploadToStorage env0 upload_download_refused ''http://upstream/img.png'' ''key-1''
          ''a cat'' ''dalle'' s0) = Inr ''http://upstream/img.png'' \<and>
   fst (uploadToStorage env0 upload_ok ''http://upstream/img.png'' ''key-1'' ''a cat''
          ''dalle'' s0) = Inr ''http://storage/signed''"
  by (simp add: uploadToStorage_def uploadToStorage_try_def upload_stream_breaks_def
      upload_download_refused_def upload_ok_def transfer_ok_def env0_def s0_def
      tempDir_def emit_def create_file_def unlink_file_def thrown_def Let_def)

text \<open>
  C5. The temporary file is unlinked on the path on which every step succeeds, and on
  no other. When the storage put answers with an error, \<open>uploadToStorage\<close> returns
  with the file still in the temporary directory; when reading the file back throws,
  so does \<open>imageToBase64\<close>.
\<close>

theorem temp_file_left_behind:
  "fst (uploadToStorage env0 upload_put_fails ''http://upstream/img.png'' ''key-1'' ''a cat''
          ''dalle'' s0) = Inr ''http://upstream/img.png'' \<and>
   temp_files (snd (uploadToStorage env0 upload_put_fails ''http://upstream/img.png'' ''key-1''
          ''a cat'' ''dalle'' s0)) = {''temp/u1.png''} \<and>
   temp_files (snd (uploadToStorage env0 upload_ok ''http://upstream/img.png'' ''key-1''
          ''a cat'' ''dalle'' s0)) = {} \<and>
   temp_files (snd (imageToBase64 env0 (transfer_ok\<lparr>read_throws := True\<rparr>)
          ''http://upstream/img.png'' s0)) = {''temp/u1.png''}"
  by (simp add: uploadToStorage_def uploadToStorage_try_def imageToBase64_def
      imageToBase64_try_def upload_put_fails_def upload_ok_def transfer_ok_def env0_def s0_def
      tempDir_def emit_def create_file_def unlink_file_def thrown_def Let_def)

section \<open>The orchestrator\<close>

lemma pollTaskCompletion_counts:
  assumes "pollTaskCompletion replies t s = (x, s')"
  shows "submissions s' = submissions s \<and> polls s' \<le> polls s + maxAttempts POLL_CONFIG"
  using pollFrom_effects[of POLL_CONFIG replies t 0 s] assms
  by (simp add: pollTaskCompletion_def)

lemma pollTaskCompletion_returns:
  assumes "pollTaskCompletion replies t s = (Inr img, s')"
  shows "\<exists>k. k < maxAttempts POLL_CONFIG \<and> is_done (replies k) \<and>
             (\<forall>i. i < k \<longrightarrow> \<not> is_done (replies i)) \<and> polls s' = polls s + Suc k"
proof -
  have "fst (pollFrom POLL_CONFIG replies t 0 s) = Inr img"
    using assms by (simp add: pollTaskCompletion_def)
  from pollFrom_returns[OF this] assms show ?thesis
    by (auto simp: pollTaskCompletion_def)
qed

lemma uploadToStorage_try_counts:
  "submissions (snd (uploadToStorage_try e w src k p m s)) = submissions s \<and>
   polls (snd (uploadToStorage_try e w src k p m s)) = polls s"
  by (simp add: uploadToStorage_try_def Let_def
      split: if_splits sum.splits write_outcome.splits option.splits)

lemma uploadToStorage_counts:
  assumes "uploadToStorage e w src k p m s = (u, s')"
  shows "submissions s' = submissions s \<and> polls s' = polls s"
proof -
  have "snd (uploadToStorage e w src k p m s) = snd (uploadToStorage_try e w src k p m s)"
    by (simp add: uploadToStorage_def split: prod.splits sum.splits failure.splits)
  then show ?thesis using assms uploadToStorage_try_counts[of e w src k p m s] by simp
qed

lemma imageToBase64_try_counts:
  "submissions (snd (imageToBase64_try e w u s)) = submissions s \<and>
   polls (snd (imageToBase64_try e w u s)) = polls s"
  by (simp add: imageToBase64_try_def Let_def
      split: if_splits sum.splits write_outcome.splits)

lemma imageToBase64_counts:
  assumes "imageToBase64 e w u s = (x, s')"
  shows "submissions s' = submissions s \<and> polls s' = polls s"
proof -
  have "snd (imageToBase64 e w u s) = snd (imageToBase64_try e w u s)"
    by (simp add: imageToBase64_def split: prod.splits sum.splits failure.splits)
  then show ?thesis using assms imageToBase64_try_counts[of e w u s] by simp
qed

subsection \<open>Model resolution\<close>










lemma resolve_dall_e_3:
  "resolveTarget e p sz ''dall-e-3'' =
     Inr (Own ''dalle'', ''/ai-image/dalle'',
          API_BASE_URL e @ ''/ai-image/dalle'' @ ''?text='' @ encodeURIComponent e p)"
  by (simp add: resolveTarget_def js_get_def or_else_def truthy_def to_key_def
      OPENAI_MODEL_MAP_def MODEL_PROVIDERS_def PROVIDERS_def Let_def)






lemma generateImage_try_no_prompt:
  assumes "p_prompt ps = None \<or> p_prompt ps = Some []"
  shows "generateImage_try e w ps s = (Inl prompt_required, s)"
  using assms by (auto simp: generateImage_try_def Let_def)

lemma generateImage_try_no_target:
  assumes "p_prompt ps = Some p" and "p \<noteq> []"
    and "resolveTarget e p (case p_size ps of None \<Rightarrow> ''1024x1024'' | Some z \<Rightarrow> z)
           (case p_model ps of None \<Rightarrow> ''dalle'' | Some m \<Rightarrow> m) = Inl err"
  shows "generateImage_try e w ps s = (Inl err, s)"
  using assms by (simp add: generateImage_try_def Let_def)

lemma generateImage_rethrows:
  assumes "generateImage_try e w ps s = (Inl (ApiError m c t pa co), s1)"
  shows "generateImage e w ps s =
           (Inl (ApiError m c t pa co),
            if p_keyId ps \<noteq> [] then
              log_request (error_log_fault w)
                \<lparr>log_key_id = p_keyId ps, log_endpoint = ''unknown'',
                 log_prompt = or_unknown (p_prompt ps), log_model = or_unknown (p_model ps),
                 log_status = ''error''\<rparr> s1
            else s1)"
  using assms by (simp add: generateImage_def Let_def)



text \<open>
  What \<open>parseInt\<close> reads: a number of 21 digits or more is printed as \<open>1e+21\<close>, of
  which it reads the 1.
\<close>

lemma parseInt_examples:
  "parseInt ''3'' = Some 3" "parseInt ''11'' = Some 11" "parseInt ''1e+21'' = Some 1"
  "parseInt ''2.5'' = Some 2" "parseInt ''abc'' = None"
  by (simp_all add: parseInt_def is_space_def digit_of_def Let_def)

lemma count_1e21_is_read_as_1:
  "numImages (body_ok\<lparr>body_n := Some (JNum ''1e+21'')\<rparr>) = Some 1 \<and>
   validate (body_ok\<lparr>body_n := Some (JNum ''1e+21'')\<rparr>) ''key-1'' =
     Inr \<lparr>p_prompt = Some ''a cat'', p_n = Some 1, p_size = None, p_model = Some ''dall-e-3'',
          p_response_format = None, p_keyId = ''key-1''\<rparr>"
  by (simp add: validate_def numImages_def body_ok_def parseInt_examples SUPPORTED_MODELS_def
      js_get_def truthy_def OPENAI_MODEL_MAP_def)

lemma validate_rejects_iff:
  "(\<exists>err. validate b keyId = Inl err) \<longleftrightarrow>
     (body_prompt b = None \<or> body_prompt b = Some [] \<or>
      \<not> (\<exists>k. numImages b = Some k \<and> 1 \<le> k \<and> k \<le> 10) \<or>
      (\<exists>z. body_size b = Some z \<and> z \<noteq> [] \<and> z \<notin> set SUPPORTED_SIZES) \<or>
      (\<exists>f. body_response_format b = Some f \<and> f \<noteq> [] \<and> f \<notin> set SUPPORTED_FORMATS) \<or>
      (\<exists>m. body_model b = Some m \<and> m \<noteq> [] \<and> m \<notin> set SUPPORTED_MODELS \<and>
           \<not> truthy (js_get OPENAI_MODEL_MAP m)))"
proof -
  have sz: "(case body_size b of None \<Rightarrow> False | Some z \<Rightarrow> z \<noteq> [] \<and> z \<notin> set SUPPORTED_SIZES) =
      (\<exists>z. body_size b = Some z \<and> z \<noteq> [] \<and> z \<notin> set SUPPORTED_SIZES)"
    by (cases "body_size b") simp_all
  have fm: "(case body_response_format b of None \<Rightarrow> False
             | Some f \<Rightarrow> f \<noteq> [] \<and> f \<notin> set SUPPORTED_FORMATS) =
      (\<exists>f. body_response_format b = Some f \<and> f \<noteq> [] \<and> f \<notin> set SUPPORTED_FORMATS)"
    by (cases "body_response_format b") simp_all
  have md: "(case body_model b of None \<Rightarrow> False
             | Some m \<Rightarrow> m \<noteq> [] \<and> m \<notin> set SUPPORTED_MODELS \<and>
                        \<not> truthy (js_get OPENAI_MODEL_MAP m)) =
      (\<exists>m. body_model b = Some m \<and> m \<noteq> [] \<and> m \<notin> set SUPPORTED_MODELS \<and>
           \<not> truthy (js_get OPENAI_MODEL_MAP m))"
    by (cases "body_model b") simp_all
  show ?thesis
  proof (cases "numImages b")
    case None
    then show ?thesis by (simp add: validate_def)
  next
    case (Some c)
    then show ?thesis unfolding validate_def sz fm md by auto
  qed
qed


lemma trace_log_request:
  "trace (log_request f row s) = trace s @ (if f = Works then [RequestLogged row] else [])"
  "temp_files (log_request f row s) = temp_files s"
  by (simp_all add: log_request_def emit_def split: store_fault.splits)



lemma generateImage_no_prompt:
  assumes "p_prompt ps = None \<or> p_prompt ps = Some []"
  shows "generateImage e w ps s =
           (Inl prompt_required,
            if p_keyId ps \<noteq> [] then
              log_request (error_log_fault w)
                \<lparr>log_key_id = p_keyId ps, log_endpoint = ''unknown'',
                 log_prompt = or_unknown (p_prompt ps), log_model = or_unknown (p_model ps),
                 log_status = ''error''\<rparr> s
            else s)"
  using generateImage_try_no_prompt[OF assms, of e w s]
  unfolding prompt_required_def by (rule generateImage_rethrows)

text \<open>
  C7. A request that the checks of the route reject is answered with the error at once:
  the handler returns it with no effect on the outside, no call to the upstream and no
  row in the request log. The route rejects a request exactly when the prompt is missing
  or empty, or \<open>n ? parseInt(n) : 1\<close> is not a number from 1 to 10, or the size, the
  format or the model is a non-empty string that the route does not accept. A missing
  prompt or an unresolvable model that \<open>generateImage\<close> itself rejects leads to no
  call to the upstream and touches no file; its \<open>catch\<close> then writes one row with
  status \<open>error\<close> to the request log, when the params carry a key id and the log
  store works.
\<close>

theorem rejected_requests_reach_no_upstream:
  "(validate b keyId = Inl err \<longrightarrow> post_generations e w b keyId s = (Inl err, s)) \<and>
   ((\<exists>err. validate b keyId = Inl err) \<longleftrightarrow>
      (body_prompt b = None \<or> body_prompt b = Some [] \<or>
       \<not> (\<exists>k. numImages b = Some k \<and> 1 \<le> k \<and> k \<le> 10) \<or>
       (\<exists>z. body_size b = Some z \<and> z \<noteq> [] \<and> z \<notin> set SUPPORTED_SIZES) \<or>
       (\<exists>f. body_response_format b = Some f \<and> f \<noteq> [] \<and> f \<notin> set SUPPORTED_FORMATS) \<or>
       (\<exists>m. body_model b = Some m \<and> m \<noteq> [] \<and> m \<notin> set SUPPORTED_MODELS \<and>
            \<not> truthy (js_get OPENAI_MODEL_MAP m)))) \<and>
   ((p_prompt ps = None \<or> p_prompt ps = Some [] \<or>
     (\<exists>p. p_prompt ps = Some p \<and>
        resolveTarget e p (case p_size ps of None \<Rightarrow> ''1024x1024'' | Some z \<Rightarrow> z)
          (case p_model ps of None \<Rightarrow> ''dalle'' | Some m \<Rightarrow> m) = Inl invalid_model)) \<longrightarrow>
    (fst (generateImage e w ps s) = Inl prompt_required \<or>
     fst (generateImage e w ps s) = Inl invalid_model) \<and>
    submissions (snd (generateImage e w ps s)) = submissions s \<and>
    polls (snd (generateImage e w ps s)) = polls s \<and>
    temp_files (snd (generateImage e w ps s)) = temp_files s \<and>
    trace (snd (generateImage e w ps s)) =
      trace s @
      (if p_keyId ps \<noteq> [] \<and> error_log_fault w = Works then
         [RequestLogged
            \<lparr>log_key_id = p_keyId ps, log_endpoint = ''unknown'',
             log_prompt = or_unknown (p_prompt ps), log_model = or_unknown (p_model ps),
             log_status = ''error''\<rparr>]
       else []))"
proof (intro conjI impI)
  assume "validate b keyId = Inl err"
  then show "post_generations e w b keyId s = (Inl err, s)"
    by (simp add: post_generations_def)
next
  show "(\<exists>err. validate b keyId = Inl err) \<longleftrightarrow>
      (body_prompt b = None \<or> body_prompt b = Some [] \<or>
       \<not> (\<exists>k. numImages b = Some k \<and> 1 \<le> k \<and> k \<le> 10) \<or>
       (\<exists>z. body_size b = Some z \<and> z \<noteq> [] \<and> z \<notin> set SUPPORTED_SIZES) \<or>
       (\<exists>f. body_response_format b = Some f \<and> f \<noteq> [] \<and> f \<notin> set SUPPORTED_FORMATS) \<or>
       (\<exists>m. body_model b = Some m \<and> m \<noteq> [] \<and> m \<notin> set SUPPORTED_MODELS \<and>
            \<not> truthy (js_get OPENAI_MODEL_MAP m)))"
    by (rule validate_rejects_iff)
next
  assume a: "p_prompt ps = None \<or> p_prompt ps = Some [] \<or>
     (\<exists>p. p_prompt ps = Some p \<and>
        resolveTarget e p (case p_size ps of None \<Rightarrow> ''1024x1024'' | Some z \<Rightarrow> z)
          (case p_model ps of None \<Rightarrow> ''dalle'' | Some m \<Rightarrow> m) = Inl invalid_model)"
  define row where "row = \<lparr>log_key_id = p_keyId ps, log_endpoint = ''unknown'',
                 log_prompt = or_unknown (p_prompt ps), log_model = or_unknown (p_model ps),
                 log_status = ''error''\<rparr>"
  have "\<exists>x. (x = prompt_required \<or> x = invalid_model) \<and>
          generateImage e w ps s =
            (Inl x, if p_keyId ps \<noteq> [] then log_request (error_log_fault w) row s else s)"
  proof (cases "p_prompt ps = None \<or> p_prompt ps = Some []")
    case True
    then show ?thesis using generateImage_no_prompt[OF True, of e w s] by (simp add: row_def)
  next
    case False
    then obtain p where p: "p_prompt ps = Some p" "p \<noteq> []"
      and r: "resolveTarget e p (case p_size ps of None \<Rightarrow> ''1024x1024'' | Some z \<Rightarrow> z)
          (case p_model ps of None \<Rightarrow> ''dalle'' | Some m \<Rightarrow> m) = Inl invalid_model"
      using a by auto
    have "generateImage_try e w ps s = (Inl invalid_model, s)"
      by (rule generateImage_try_no_target[OF p r])
    then have "generateImage e w ps s =
        (Inl invalid_model, if p_keyId ps \<noteq> [] then log_request (error_log_fault w) row s else s)"
      unfolding invalid_model_def row_def by (rule generateImage_rethrows)
    then show ?thesis by blast
  qed
  then obtain x where x: "x = prompt_required \<or> x = invalid_model"
    and g: "generateImage e w ps s =
            (Inl x, if p_keyId ps \<noteq> [] then log_request (error_log_fault w) row s else s)"
    by blast
  show "fst (generateImage e w ps s) = Inl prompt_required \<or>
     fst (generateImage e w ps s) = Inl invalid_model"
    using x g by auto
  show "submissions (snd (generateImage e w ps s)) = submissions s" by (simp add: g)
  show "polls (snd (generateImage e w ps s)) = polls s" by (simp add: g)
  show "temp_files (snd (generateImage e w ps s)) = temp_files s"
    by (simp add: g trace_log_request)
  show "trace (snd (generateImage e w ps s)) =
      trace s @
      (if p_keyId ps \<noteq> [] \<and> error_log_fault w = Works then
         [RequestLogged
            \<lparr>log_key_id = p_keyId ps, log_endpoint = ''unknown'',
             log_prompt = or_unknown (p_prompt ps), log_model = or_unknown (p_model ps),
             log_status = ''error''\<rparr>]
       else [])"
    by (simp add: g trace_log_request row_def)
qed

theorem rejected_requests_reach_no_upstream_witness:
  "numImages (body_ok\<lparr>body_n := Some (JNum ''11'')\<rparr>) = Some 11 \<and>
   validate (body_ok\<lparr>body_n := Some (JNum ''11'')\<rparr>) ''key-1'' =
     Inl (invalid_param ''n must be between 1 and 10'' ''n'') \<and>
   post_generations env0 world_ok (body_ok\<lparr>body_n := Some (JNum ''11'')\<rparr>) ''key-1'' s0 =
     (Inl (invalid_param ''n must be between 1 and 10'' ''n''), s0) \<and>
   fst (generateImage env0 world_ok
          \<lparr>p_prompt = None, p_n = Some 1, p_size = None, p_model = None,
           p_response_format = None, p_keyId = ''key-1''\<rparr> s0) = Inl prompt_required \<and>
   submissions (snd (generateImage env0 world_ok
          \<lparr>p_prompt = None, p_n = Some 1, p_size = None, p_model = None,
           p_response_format = None, p_keyId = ''key-1''\<rparr> s0)) = 0"
proof -
  have n11: "numImages (body_ok\<lparr>body_n := Some (JNum ''11'')\<rparr>) = Some 11"
    by (simp add: numImages_def body_ok_def parseInt_examples)
  have v: "validate (body_ok\<lparr>body_n := Some (JNum ''11'')\<rparr>) ''key-1'' =
     Inl (invalid_param ''n must be between 1 and 10'' ''n'')"
    by (simp add: validate_def numImages_def parseInt_examples body_ok_def)
  have z: "submissions s0 = 0" by (simp add: submissions_def s0_def)
  have np: "prompt_required \<noteq> invalid_model" by (simp add: prompt_required_def invalid_model_def)
  note main = rejected_requests_reach_no_upstream[where b="body_ok\<lparr>body_n := Some (JNum ''11'')\<rparr>"
      and keyId="''key-1''" and err="invalid_param ''n must be between 1 and 10'' ''n''"
      and e=env0 and w=world_ok and s=s0
      and ps="\<lparr>p_prompt = None, p_n = Some 1, p_size = None, p_model = None,
           p_response_format = None, p_keyId = ''key-1''\<rparr>"]
  have a: "post_generations env0 world_ok (body_ok\<lparr>body_n := Some (JNum ''11'')\<rparr>) ''key-1'' s0 =
     (Inl (invalid_param ''n must be between 1 and 10'' ''n''), s0)"
    using main v by blast
  have g: "generateImage env0 world_ok
          \<lparr>p_prompt = None, p_n = Some 1, p_size = None, p_model = None,
           p_response_format = None, p_keyId = ''key-1''\<rparr> s0 =
        (Inl prompt_required, log_request (error_log_fault world_ok)
                \<lparr>log_key_id = ''key-1'', log_endpoint = ''unknown'',
                 log_prompt = ''unknown'', log_model = ''unknown'',
                 log_status = ''error''\<rparr> s0)"
    using generateImage_no_prompt[where ps="\<lparr>p_prompt = None, p_n = Some 1, p_size = None,
           p_model = None, p_response_format = None, p_keyId = ''key-1''\<rparr>"
        and e=env0 and w=world_ok and s=s0]
    by (simp add: or_unknown_def)
  have b: "fst (generateImage env0 world_ok
          \<lparr>p_prompt = None, p_n = Some 1, p_size = None, p_model = None,
           p_response_format = None, p_keyId = ''key-1''\<rparr> s0) = Inl prompt_required"
    by (simp add: g)
  have c: "submissions (snd (generateImage env0 world_ok
          \<lparr>p_prompt = None, p_n = Some 1, p_size = None, p_model = None,
           p_response_format = None, p_keyId = ''key-1''\<rparr> s0)) = 0"
    using main z by simp
  show ?thesis using n11 v a b c by blast
qed

text \<open>
  A request with a prompt and the empty string for a model passes the checks of the
  route, is rejected by \<open>generateImage\<close> with the 400 error on \<open>model\<close>, and leaves one
  row in the request log.
\<close>

theorem invalid_model_is_logged_counterexample:
  "fst (post_generations env0 world_ok (body_ok\<lparr>body_model := Some ''''\<rparr>) ''key-1'' s0) =
     Inl (ApiError ''Invalid model'' 400 ''invalid_request_error'' (Some ''model'')
            (Some ''param_invalid'')) \<and>
   trace (snd (post_generations env0 world_ok (body_ok\<lparr>body_model := Some ''''\<rparr>) ''key-1'' s0)) =
     [RequestLogged
        \<lparr>log_key_id = ''key-1'', log_endpoint = ''unknown'', log_prompt = ''a cat'',
         log_model = ''unknown'', log_status = ''error''\<rparr>]"
proof -
  have v: "validate (body_ok\<lparr>body_model := Some ''''\<rparr>) ''key-1'' =
      Inr \<lparr>p_prompt = Some ''a cat'', p_n = Some 3, p_size = None, p_model = Some '''',
           p_response_format = None, p_keyId = ''key-1''\<rparr>"
    by (simp add: validate_def numImages_def parseInt_examples body_ok_def)
  have r: "resolveTarget env0 ''a cat'' ''1024x1024'' '''' = Inl invalid_model"
    by (simp add: resolveTarget_def js_get_def or_else_def to_key_def OPENAI_MODEL_MAP_def
        MODEL_PROVIDERS_def Object_prototype_def Let_def)
  have t: "generateImage_try env0 world_ok
      \<lparr>p_prompt = Some ''a cat'', p_n = Some 3, p_size = None, p_model = Some '''',
       p_response_format = None, p_keyId = ''key-1''\<rparr> s0 = (Inl invalid_model, s0)"
    by (simp add: generateImage_try_def r Let_def)
  have l: "log_request (error_log_fault world_ok)
        \<lparr>log_key_id = ''key-1'', log_endpoint = ''unknown'', log_prompt = ''a cat'',
         log_model = ''unknown'', log_status = ''error''\<rparr> s0 =
      \<lparr>trace = [RequestLogged
          \<lparr>log_key_id = ''key-1'', log_endpoint = ''unknown'', log_prompt = ''a cat'',
           log_model = ''unknown'', log_status = ''error''\<rparr>], temp_files = {}\<rparr>"
    by (simp add: log_request_def world_ok_def emit_def s0_def)
  have g: "generateImage env0 world_ok
      \<lparr>p_prompt = Some ''a cat'', p_n = Some 3, p_size = None, p_model = Some '''',
       p_response_format = None, p_keyId = ''key-1''\<rparr> s0 =
      (Inl invalid_model,
       \<lparr>trace = [RequestLogged
          \<lparr>log_key_id = ''key-1'', log_endpoint = ''unknown'', log_prompt = ''a cat'',
           log_model = ''unknown'', log_status = ''error''\<rparr>], temp_files = {}\<rparr>)"
    using generateImage_rethrows[OF t[unfolded invalid_model_def]]
    by (simp add: invalid_model_def or_unknown_def l)
  show ?thesis by (simp add: post_generations_def v g invalid_model_def)
qed

lemma generateImage_try_returns:
  assumes "generateImage_try e w ps s = (Inr r, s')"
  shows "\<exists>p am ep apiUrl job img s2 imageUrl s3.
           p_prompt ps = Some p \<and>
           resolveTarget e p (case p_size ps of None \<Rightarrow> ''1024x1024'' | Some z \<Rightarrow> z)
             (case p_model ps of None \<Rightarrow> ''dalle'' | Some m \<Rightarrow> m) = Inr (am, ep, apiUrl) \<and>
           submit_reply w = Inr job \<and>
           pollTaskCompletion (poll_replies w) (task_url job) (emit (Submitted apiUrl) s) =
             (Inr img, s2) \<and>
           uploadToStorage e (upload w) (result_url img) (p_keyId ps) p (to_key am) s2 =
             (Inr imageUrl, s3) \<and>
           ((s' = log_request (success_log_fault w)
                    \<lparr>log_key_id = p_keyId ps, log_endpoint = ep, log_prompt = p,
                     log_model = to_key am, log_status = ''success''\<rparr> s3 \<and>
             fill_data (case p_n ps of None \<Rightarrow> 1 | Some k \<Rightarrow> k) (Url imageUrl) =
               Inr (resp_data r)) \<or>
            (\<exists>b64. imageToBase64 e (encode w) (result_url img)
                     (log_request (success_log_fault w)
                        \<lparr>log_key_id = p_keyId ps, log_endpoint = ep, log_prompt = p,
                         log_model = to_key am, log_status = ''success''\<rparr> s3) = (Inr b64, s') \<and>
                   fill_data (case p_n ps of None \<Rightarrow> 1 | Some k \<Rightarrow> k) (B64_json b64) =
                     Inr (resp_data r)))"
  using assms
  unfolding generateImage_try_def Let_def
  by (auto split: option.splits if_splits sum.splits prod.splits)


lemma generateImage_returns:
  assumes "generateImage e w ps s = (Inr r, s')"
  shows "generateImage_try e w ps s = (Inr r, s')"
  using assms
  by (auto simp: generateImage_def Let_def split: prod.splits sum.splits failure.splits)

lemma generateImage_of_try:
  assumes "fst (generateImage_try e w ps s) = Inr r"
  shows "generateImage e w ps s = generateImage_try e w ps s"
  using assms by (cases "generateImage_try e w ps s") (simp add: generateImage_def)

lemma validate_count:
  assumes "validate b k = Inr ps" and "numImages b = Some n"
  shows "p_n ps = Some n"
  using assms by (auto simp: validate_def split: if_splits)

lemma fill_data_replicate:
  assumes "fill_data n x = Inr d" and "1 \<le> n"
  shows "d = replicate (nat n) x"
  using assms by (simp add: fill_data_def split: if_splits)

text \<open>
  C3. A request whose count the handler reads as n, between 1 and 10, and that is
  answered with success has caused exactly one submission to the upstream and the
  attempts of one poll loop (those up to the first completed answer, fewer than
  maxAttempts before it), and the data of the response is n copies of one entry: the
  same url, or the same b64\_json value.
\<close>

theorem one_submission_n_entries:
  assumes "numImages b = Some n" and "1 \<le> n" and "n \<le> 10"
    and "post_generations e w b keyId s = (Inr r, s')"
  shows "submissions s' = submissions s + 1 \<and>
         (\<exists>k. k < maxAttempts POLL_CONFIG \<and> is_done (poll_replies w k) \<and>
              (\<forall>i. i < k \<longrightarrow> \<not> is_done (poll_replies w i)) \<and> polls s' = polls s + Suc k) \<and>
         length (resp_data r) = nat n \<and>
         (\<exists>x. resp_data r = replicate (nat n) (Url x) \<or>
              resp_data r = replicate (nat n) (B64_json x))"
proof -
  obtain ps where v: "validate b keyId = Inr ps" and g: "generateImage e w ps s = (Inr r, s')"
    using assms(4) by (auto simp: post_generations_def split: sum.splits)
  have cnt: "p_n ps = Some n" by (rule validate_count[OF v assms(1)])
  from generateImage_try_returns[OF generateImage_returns[OF g]]
  obtain p am ep apiUrl and job :: job_response and img :: poll_result
    and s2 imageUrl s3 where
    poll: "pollTaskCompletion (poll_replies w) (task_url job) (emit (Submitted apiUrl) s) =
             (Inr img, s2)"
    and up: "uploadToStorage e (upload w) (result_url img) (p_keyId ps) p (to_key am) s2 =
             (Inr imageUrl, s3)"
    and fin: "(s' = log_request (success_log_fault w)
                    \<lparr>log_key_id = p_keyId ps, log_endpoint = ep, log_prompt = p,
                     log_model = to_key am, log_status = ''success''\<rparr> s3 \<and>
             fill_data (case p_n ps of None \<Rightarrow> 1 | Some k \<Rightarrow> k) (Url imageUrl) =
               Inr (resp_data r)) \<or>
            (\<exists>b64. imageToBase64 e (encode w) (result_url img)
                     (log_request (success_log_fault w)
                        \<lparr>log_key_id = p_keyId ps, log_endpoint = ep, log_prompt = p,
                         log_model = to_key am, log_status = ''success''\<rparr> s3) = (Inr b64, s') \<and>
                   fill_data (case p_n ps of None \<Rightarrow> 1 | Some k \<Rightarrow> k) (B64_json b64) =
                     Inr (resp_data r))"
    by blast
  have s2: "submissions s2 = submissions s + 1"
    using pollTaskCompletion_counts[OF poll] by simp
  obtain k where k: "k < maxAttempts POLL_CONFIG" "is_done (poll_replies w k)"
    "\<forall>i. i < k \<longrightarrow> \<not> is_done (poll_replies w i)" "polls s2 = polls s + Suc k"
    using pollTaskCompletion_returns[OF poll] by auto
  have s3: "submissions s3 = submissions s2" "polls s3 = polls s2"
    using uploadToStorage_counts[OF up] by simp_all
  have tail: "submissions s' = submissions s3 \<and> polls s' = polls s3 \<and>
      (\<exists>x. resp_data r = replicate (nat n) (Url x) \<or> resp_data r = replicate (nat n) (B64_json x))"
    using fin
  proof
    assume a: "s' = log_request (success_log_fault w)
                    \<lparr>log_key_id = p_keyId ps, log_endpoint = ep, log_prompt = p,
                     log_model = to_key am, log_status = ''success''\<rparr> s3 \<and>
             fill_data (case p_n ps of None \<Rightarrow> 1 | Some k \<Rightarrow> k) (Url imageUrl) =
               Inr (resp_data r)"
    then have "resp_data r = replicate (nat n) (Url imageUrl)"
      using fill_data_replicate[of n "Url imageUrl" "resp_data r"] cnt assms(2) by simp
    then show ?thesis using a by auto
  next
    assume "\<exists>b64. imageToBase64 e (encode w) (result_url img)
                     (log_request (success_log_fault w)
                        \<lparr>log_key_id = p_keyId ps, log_endpoint = ep, log_prompt = p,
                         log_model = to_key am, log_status = ''success''\<rparr> s3) = (Inr b64, s') \<and>
                   fill_data (case p_n ps of None \<Rightarrow> 1 | Some k \<Rightarrow> k) (B64_json b64) =
                     Inr (resp_data r)"
    then obtain b64 where enc: "imageToBase64 e (encode w) (result_url img)
                     (log_request (success_log_fault w)
                        \<lparr>log_key_id = p_keyId ps, log_endpoint = ep, log_prompt = p,
                         log_model = to_key am, log_status = ''success''\<rparr> s3) = (Inr b64, s')"
      and fd: "fill_data (case p_n ps of None \<Rightarrow> 1 | Some k \<Rightarrow> k) (B64_json b64) =
                     Inr (resp_data r)"
      by blast
    have "resp_data r = replicate (nat n) (B64_json b64)"
      using fill_data_replicate[of n "B64_json b64" "resp_data r"] cnt assms(2) fd by simp
    then show ?thesis using imageToBase64_counts[OF enc] by auto
  qed
  have len: "length (resp_data r) = nat n" using tail by auto
  show ?thesis using s2 s3 k tail len by auto
qed

lemma poll_third_attempt_done:
  "pollTaskCompletion (\<lambda>i. if i < 2 then pending_reply else done_reply) t S =
     (Inr \<lparr>result_ok = True, result_status = ''done'', result_url = ''http://upstream/img.png''\<rparr>,
      emit (Polled t) (emit (Waited 10000) (emit (Polled t) (emit (Waited 10000)
        (emit (Polled t) S)))))"
  by (simp add: pollTaskCompletion_def pollFrom.simps[of _ _ _ 0] pollFrom.simps[of _ _ _ "Suc 0"]
      pollFrom.simps[of _ _ _ "Suc (Suc 0)"] pollAttempt_def POLL_CONFIG_def pending_reply_def
      done_reply_def Let_def)

lemma upload_ok_signed:
  "uploadToStorage env0 upload_ok ''http://upstream/img.png'' k p m S =
     (Inr ''http://storage/signed'',
      unlink_file ''temp/u1.png''
        (emit (ImageLogged k (k @ ''/u1.png'') p m)
           (emit (SignedUrlCreated (k @ ''/u1.png'') 120)
              (emit (StorageUpload (k @ ''/u1.png'') ''image/png'')
                 (create_file ''temp/u1.png'' (emit (Downloaded ''http://upstream/img.png'') S))))))"
  by (simp add: uploadToStorage_def uploadToStorage_try_def upload_ok_def transfer_ok_def
      env0_def tempDir_def Let_def)

theorem one_submission_n_entries_witness:
  "numImages body_ok = Some 3 \<and>
   fst (post_generations env0 world_ok body_ok ''key-1'' s0) =
     Inr \<lparr>creator = ''featherops'', created = 1728000000,
          resp_data = [Url ''http://storage/signed'', Url ''http://storage/signed'',
                       Url ''http://storage/signed'']\<rparr> \<and>
   submissions (snd (post_generations env0 world_ok body_ok ''key-1'' s0)) = 1 \<and>
   polls (snd (post_generations env0 world_ok body_ok ''key-1'' s0)) = 3"
proof -
  define r where "r = \<lparr>creator = ''featherops'', created = 1728000000,
          resp_data = [Url ''http://storage/signed'', Url ''http://storage/signed'',
                       Url ''http://storage/signed'']\<rparr>"
  define ps where "ps = \<lparr>p_prompt = Some ''a cat'', p_n = Some 3, p_size = None,
      p_model = Some ''dall-e-3'', p_response_format = None, p_keyId = ''key-1''\<rparr>"
  have fill3: "fill_data 3 x = Inr [x, x, x]" for x
    by (simp add: fill_data_def numeral_eq_Suc)
  have n: "numImages body_ok = Some 3"
    by (simp add: numImages_def body_ok_def parseInt_examples)
  have v: "validate body_ok ''key-1'' = Inr ps"
    by (simp add: validate_def numImages_def parseInt_examples body_ok_def ps_def
        SUPPORTED_MODELS_def js_get_def truthy_def OPENAI_MODEL_MAP_def)
  have t: "fst (generateImage_try env0 world_ok ps s0) = Inr r"
    by (simp add: generateImage_try_def ps_def resolve_dall_e_3 world_ok_def
        poll_third_attempt_done upload_ok_signed fill3 r_def Let_def)
  have g: "fst (post_generations env0 world_ok body_ok ''key-1'' s0) = Inr r"
    by (simp add: post_generations_def v generateImage_of_try[OF t] t)
  then have pg: "post_generations env0 world_ok body_ok ''key-1'' s0 =
      (Inr r, snd (post_generations env0 world_ok body_ok ''key-1'' s0))"
    by (metis prod.collapse)
  have z: "submissions s0 = 0" "polls s0 = 0" by (simp_all add: submissions_def polls_def s0_def)
  have d2: "\<not> is_done (if (2::nat) < 2 then pending_reply else done_reply) = False"
    by (simp add: is_done_def done_reply_def)
  have nd: "\<not> is_done pending_reply" by (simp add: is_done_def pending_reply_def)
  have dn: "is_done done_reply" by (simp add: is_done_def done_reply_def)
  have h2: "(1::int) \<le> 3" and h3: "(3::int) \<le> 10" by simp_all
  note main = one_submission_n_entries[OF n h2 h3 pg]
  have sub: "submissions (snd (post_generations env0 world_ok body_ok ''key-1'' s0)) = 1"
    using main z by simp
  obtain k where k: "is_done (poll_replies world_ok k)"
    "\<forall>i. i < k \<longrightarrow> \<not> is_done (poll_replies world_ok i)"
    "polls (snd (post_generations env0 world_ok body_ok ''key-1'' s0)) = polls s0 + Suc k"
    using main by blast
  have "k = 2"
  proof -
    have "\<not> k < 2" using k(1) nd by (auto simp: world_ok_def)
    moreover have "\<not> 2 < k" using k(2) dn by (auto simp: world_ok_def)
    ultimately show ?thesis by simp
  qed
  then have pl: "polls (snd (post_generations env0 world_ok body_ok ''key-1'' s0)) = 3"
    using k(3) z by simp
  show ?thesis using n g sub pl by (simp add: r_def)
qed

end
